theory Spec2Isabelle
  imports Main "HOL-Library.Word" "HOL-Library.AList"
begin

unbundle bit_operations_syntax

section \<open>Strings (Go package strings)\<close>

text \<open>
  A Go string is a sequence of bytes; \<^typ>\<open>string\<close> is a list of 8-bit characters.
  The functions below are the library functions the two backends call, restricted to the
  separators they are called with.
\<close>

definition nl :: char where
  "nl = CHR 0x0A"

text \<open>\<^verbatim>\<open>strings.HasPrefix(s, prefix)\<close>.\<close>

definition HasPrefix :: "string \<Rightarrow> string \<Rightarrow> bool" where
  "HasPrefix s p = (take (length p) s = p)"

text \<open>
  \<^verbatim>\<open>strings.Split(s, "\n")\<close>: the pieces between newlines, one more piece than there are
  newlines (so the empty string gives one empty piece). The first argument collects the
  current piece in reverse.
\<close>

fun split_acc :: "string \<Rightarrow> string \<Rightarrow> string list" where
  "split_acc acc [] = [rev acc]"
| "split_acc acc (c # cs) =
     (if c = nl then rev acc # split_acc [] cs else split_acc (c # acc) cs)"

definition Split :: "string \<Rightarrow> string list" where
  "Split s = split_acc [] s"

text \<open>
  \<^verbatim>\<open>strings.SplitN(s, "\n", 2)\<close>: at most two pieces, the text before the first newline and
  everything after it.
\<close>

definition SplitN2 :: "string \<Rightarrow> string list" where
  "SplitN2 s =
     (if nl \<in> set s
      then [takeWhile (\<lambda>c. c \<noteq> nl) s, tl (dropWhile (\<lambda>c. c \<noteq> nl) s)]
      else [s])"

text \<open>
  \<^verbatim>\<open>strings.TrimSpace(s)\<close> on the ASCII white space characters (tab, line feed, vertical
  tab, form feed, carriage return, space). Go also trims the Unicode spaces beyond ASCII
  (U+0085, U+00A0 and others), which are multi-byte sequences in a string; they are not
  trimmed here.
\<close>

definition isSpace :: "char \<Rightarrow> bool" where
  "isSpace c = (c \<in> {CHR 0x09, CHR 0x0A, CHR 0x0B, CHR 0x0C, CHR 0x0D, CHR 0x20})"

definition TrimSpace :: "string \<Rightarrow> string" where
  "TrimSpace s = rev (dropWhile isSpace (rev (dropWhile isSpace s)))"

text \<open>\<^verbatim>\<open>strings.Join(elems, " ")\<close>.\<close>

fun Join_sp :: "string list \<Rightarrow> string" where
  "Join_sp [] = []"
| "Join_sp [x] = x"
| "Join_sp (x # y # ys) = x @ '' '' @ Join_sp (y # ys)"

text \<open>\<^verbatim>\<open>strconv.Itoa\<close> on a positive number (the only use is behind \<^verbatim>\<open>Depth > 0\<close>).\<close>

fun digits :: "nat \<Rightarrow> nat \<Rightarrow> string" where
  "digits 0 n = []"
| "digits (Suc fuel) n =
     (if n < 10 then [char_of (48 + n)]
      else digits fuel (n div 10) @ [char_of (48 + n mod 10)])"

definition Itoa :: "int \<Rightarrow> string" where
  "Itoa i = (if i < 0 then CHR ''-'' # digits (Suc (nat (- i))) (nat (- i))
             else digits (Suc (nat i)) (nat i))"

section \<open>SHA-256 and hexadecimal encoding (Go packages crypto/sha256 and encoding/hex)\<close>

text \<open>
  The cache id of both backends is the SHA-256 digest of the URL, written in lower-case
  hexadecimal. \<open>Sum256\<close> is FIPS 180-4: the message is padded to a multiple of 64 bytes,
  and each block is compressed into the eight 32-bit words of the state. The round
  constants \<open>K256\<close> and the initial state \<open>H256\<close> are the standard's, written in decimal.
\<close>

type_synonym w32 = "32 word"
type_synonym byte = "8 word"

definition K256 :: "w32 list" where
  "K256 =
    [1116352408, 1899447441, 3049323471, 3921009573, 961987163, 1508970993,
     2453635748, 2870763221, 3624381080, 310598401, 607225278, 1426881987,
     1925078388, 2162078206, 2614888103, 3248222580, 3835390401, 4022224774,
     264347078, 604807628, 770255983, 1249150122, 1555081692, 1996064986,
     2554220882, 2821834349, 2952996808, 3210313671, 3336571891, 3584528711,
     113926993, 338241895, 666307205, 773529912, 1294757372, 1396182291,
     1695183700, 1986661051, 2177026350, 2456956037, 2730485921, 2820302411,
     3259730800, 3345764771, 3516065817, 3600352804, 4094571909, 275423344,
     430227734, 506948616, 659060556, 883997877, 958139571, 1322822218,
     1537002063, 1747873779, 1955562222, 2024104815, 2227730452, 2361852424,
     2428436474, 2756734187, 3204031479, 3329325298]"

definition H256 :: "w32 list" where
  "H256 =
    [1779033703, 3144134277, 1013904242, 2773480762,
     1359893119, 2600822924, 528734635, 1541459225]"

definition rotr :: "nat \<Rightarrow> w32 \<Rightarrow> w32" where
  "rotr n x = (drop_bit n x) OR (push_bit (32 - n) x)"

definition be_word :: "byte list \<Rightarrow> w32" where
  "be_word bs = foldl (\<lambda>acc b. push_bit 8 acc OR ucast b) 0 bs"

definition be_bytes :: "w32 \<Rightarrow> byte list" where
  "be_bytes x = [ucast (drop_bit 24 x), ucast (drop_bit 16 x), ucast (drop_bit 8 x), ucast x]"

definition len_bytes :: "64 word \<Rightarrow> byte list" where
  "len_bytes n = map (\<lambda>i. ucast (drop_bit (8 * (7 - i)) n)) [0..<8]"

definition pad :: "byte list \<Rightarrow> byte list" where
  "pad m = m @ [0x80] @ replicate ((119 - length m mod 64) mod 64) 0
             @ len_bytes (push_bit 3 (of_nat (length m)))"

fun chunks :: "nat \<Rightarrow> nat \<Rightarrow> 'a list \<Rightarrow> 'a list list" where
  "chunks 0 k xs = []"
| "chunks (Suc fuel) k xs = (if xs = [] then [] else take k xs # chunks fuel k (drop k xs))"

fun extend :: "nat \<Rightarrow> w32 list \<Rightarrow> w32 list" where
  "extend 0 ws = ws"
| "extend (Suc n) ws =
    (let i = length ws;
         w15 = ws ! (i - 15); w2 = ws ! (i - 2);
         s0 = rotr 7 w15 XOR rotr 18 w15 XOR drop_bit 3 w15;
         s1 = rotr 17 w2 XOR rotr 19 w2 XOR drop_bit 10 w2
     in extend n (ws @ [ws ! (i - 16) + s0 + ws ! (i - 7) + s1]))"

definition round256 :: "w32 list \<Rightarrow> w32 \<times> w32 \<Rightarrow> w32 list" where
  "round256 st kw =
    (case st of [a, b, c, d, e, f, g, h] \<Rightarrow>
      (let S1 = rotr 6 e XOR rotr 11 e XOR rotr 25 e;
           ch = (e AND f) XOR (NOT e AND g);
           t1 = h + S1 + ch + fst kw + snd kw;
           S0 = rotr 2 a XOR rotr 13 a XOR rotr 22 a;
           maj = (a AND b) XOR (a AND c) XOR (b AND c);
           t2 = S0 + maj
       in [t1 + t2, a, b, c, d + t1, e, f, g])
     | _ \<Rightarrow> st)"

definition compress :: "w32 list \<Rightarrow> byte list \<Rightarrow> w32 list" where
  "compress hs block =
     (let ws = extend 48 (map be_word (chunks 16 4 block))
      in map2 (+) hs (foldl round256 hs (zip K256 ws)))"

definition Sum256 :: "string \<Rightarrow> byte list" where
  "Sum256 s = (let m = pad (map of_char s)
               in concat (map be_bytes (foldl compress H256 (chunks (length m) 64 m))))"

definition hexdigit :: "nat \<Rightarrow> char" where
  "hexdigit n = ''0123456789abcdef'' ! n"

definition EncodeToString :: "byte list \<Rightarrow> string" where
  "EncodeToString bs = concat (map (\<lambda>b. [hexdigit (unat b div 16), hexdigit (unat b mod 16)]) bs)"


text \<open>
  \<^verbatim>\<open>hex.EncodeToString(sha[:])\<close> of the hg backend; \<^verbatim>\<open>fmt.Sprintf("%x", sum)\<close> of the git
  backend prints a byte array in the same way, two lower-case digits for each byte.
\<close>

definition Sprintf_x :: "byte list \<Rightarrow> string" where
  "Sprintf_x bs = EncodeToString bs"

section \<open>The world outside the program\<close>

text \<open>
  A sync works on directories (the destination, the temporary directories handed out by
  the temporary area, the cache entries), runs external commands in them and calls the
  cache. The world records the directories, each one a list of relative file names with
  content and permission bits, the external commands that were run, in order, and the
  calls to the cache, in order. Directories with different paths are independent of each
  other: no path names a directory inside another one.
\<close>

type_synonym path = string
type_synonym fileinfo = "string \<times> nat"
type_synonym tree = "(string \<times> fileinfo) list"

datatype command =
  Command (cmd_tool: string) (cmd_args: "string list") (cmd_env: "string list option")
    (cmd_dir: path)

datatype cache_op =
    Has string string
  | CopyFrom string string path
  | Save string string path

record world =
  dirs :: "path \<Rightarrow> tree option"
  cmds :: "command list"
  cacheOps :: "cache_op list"

text \<open>
  Errors. The source builds messages with \<^verbatim>\<open>fmt.Errorf\<close>; each message format is one
  constructor, with the values the format prints. \<open>External\<close> is an error of a
  collaborator that the code returns unchanged (temporary area, secret fetching, cache,
  version selection, verification); \<open>Wrapped p e\<close> is \<^verbatim>\<open>fmt.Errorf("p: %s", e)\<close>.
\<close>

datatype error =
    ExpectedNonEmptyURL
  | UserPassOnlyHTTPS
  | ExpectedRefOrRefSelection
  | UnknownSecretField string string
  | WritingPrivateKey string
  | WritingKnownHosts string
  | WritingFile path string
  | ParsingRemoteURL string
  | CommandFailed string "string list" string string
  | External string
  | Wrapped string error
  | DeletingDir path string
  | MovingDirectory path string

text \<open>
  Modelled from the spec: the ref-selection constraint and the verification settings are
  structs of package config, which is not among the sources. This code only tests them for
  presence and passes them on, so they are opaque values here.
\<close>

type_synonym VersionSelection = string
type_synonym Verification = string

text \<open>
  Everything the code asks of its surroundings, as functions of the request and of the
  world at the time of the request:
  \<^item> \<open>environ\<close>: \<^verbatim>\<open>os.Environ()\<close>;
  \<^item> \<open>newTempDir\<close>: the path \<^verbatim>\<open>tempArea.NewTempDir(prefix)\<close> returns, or its error;
  \<^item> \<open>writeFile_err\<close>, \<open>rename_err\<close>: the error of \<^verbatim>\<open>os.WriteFile\<close>, \<^verbatim>\<open>os.Rename\<close>, if any;
  \<^item> \<open>removeAll_err\<close>: the error of \<^verbatim>\<open>os.RemoveAll\<close>, if any, with the names that were
    not removed;
  \<^item> \<open>exec\<close>: what an external command does: its error and standard error, or its standard
    output and standard error, and the working directory it leaves;
  \<^item> \<open>getSecret\<close>: \<^verbatim>\<open>refFetcher.GetSecret(name)\<close>, the fields in the order in which the
    loop over the map visits them;
  \<^item> \<open>cacheHas\<close>, \<open>cacheCopyFrom\<close>, \<open>cacheSave\<close>, \<open>noCache\<close>: the cache (\<open>noCache\<close> is the
    type test \<^verbatim>\<open>d.cache.(*ctlcache.NoCache)\<close>);
  \<^item> \<open>highestConstrainedVersion\<close>: \<^verbatim>\<open>ctlver.HighestConstrainedVersion\<close>;
  \<^item> \<open>verify\<close>: \<^verbatim>\<open>Verification{...}.Verify(ref)\<close>, its error and the working directory it
    leaves;
  \<^item> \<open>base64\<close>: \<^verbatim>\<open>base64.StdEncoding.EncodeToString\<close>;
  \<^item> \<open>urlWithUserinfo\<close>: \<^verbatim>\<open>url.Parse\<close> of the URL, then the user and password set, the
    path cleared, and \<^verbatim>\<open>String()\<close>; \<open>urlHost\<close>: \<^verbatim>\<open>url.Parse\<close>, then \<^verbatim>\<open>Host\<close>.
\<close>

record outside =
  environ :: "string list"
  newTempDir :: "string \<Rightarrow> world \<Rightarrow> string + path"
  writeFile_err :: "path \<Rightarrow> string \<Rightarrow> world \<Rightarrow> string option"
  removeAll_err :: "path \<Rightarrow> world \<Rightarrow> (string \<times> (string \<Rightarrow> bool)) option"
  rename_err :: "path \<Rightarrow> path \<Rightarrow> world \<Rightarrow> string option"
  exec :: "command \<Rightarrow> world \<Rightarrow> (string \<times> string + string \<times> string) \<times> tree option"
  getSecret :: "string \<Rightarrow> string + (string \<times> string) list"
  cacheHas :: "string \<Rightarrow> string \<Rightarrow> world \<Rightarrow> path option"
  cacheCopyFrom :: "string \<Rightarrow> string \<Rightarrow> path \<Rightarrow> world \<Rightarrow> string option \<times> tree option"
  cacheSave :: "string \<Rightarrow> string \<Rightarrow> path \<Rightarrow> world \<Rightarrow> string option"
  noCache :: bool
  highestConstrainedVersion :: "string list \<Rightarrow> VersionSelection \<Rightarrow> string + string"
  verify :: "Verification \<Rightarrow> path \<Rightarrow> string \<Rightarrow> world \<Rightarrow> string option \<times> tree option"
  base64 :: "string \<Rightarrow> string"
  urlWithUserinfo :: "string \<Rightarrow> string \<Rightarrow> string \<Rightarrow> string + string"
  urlHost :: "string \<Rightarrow> string + string"

subsection \<open>Files and directories\<close>

text \<open>\<^verbatim>\<open>filepath.Join(dir, name)\<close> for a directory and a name without special elements.\<close>

definition Join :: "path \<Rightarrow> string \<Rightarrow> path" where
  "Join d name = d @ ''/'' @ name"

text \<open>Permission bits \<^verbatim>\<open>0600\<close>: read and write for the owner only.\<close>

definition perm0600 :: nat where
  "perm0600 = 6 * 64"

text \<open>
  Modelled from the spec: the temporary area (\<^verbatim>\<open>ctlfetch.TempArea\<close>) is not among the
  sources. \<^verbatim>\<open>NewTempDir(prefix)\<close> returns the path of a new, empty directory, or an error.
\<close>

definition NewTempDir :: "outside \<Rightarrow> string \<Rightarrow> world \<Rightarrow> (error + path) \<times> world" where
  "NewTempDir ext pre w =
     (case newTempDir ext pre w of
        Inl msg \<Rightarrow> (Inl (External msg), w)
      | Inr p \<Rightarrow> (Inr p, w\<lparr>dirs := (dirs w)(p \<mapsto> [])\<rparr>))"

text \<open>
  \<^verbatim>\<open>os.WriteFile(filepath.Join(dir, name), data, perm)\<close>: the directory must exist; a new
  file gets the permission bits asked for, an existing one keeps its own. A failed write
  leaves the directory as it was.
\<close>

definition WriteFile ::
  "outside \<Rightarrow> path \<Rightarrow> string \<Rightarrow> string \<Rightarrow> nat \<Rightarrow> world \<Rightarrow> string option \<times> world" where
  "WriteFile ext d name data perm w =
     (case writeFile_err ext d name w of
        Some msg \<Rightarrow> (Some msg, w)
      | None \<Rightarrow>
          (case dirs w d of
             None \<Rightarrow> (Some ''no such file or directory'', w)
           | Some t \<Rightarrow>
               (let p = (case map_of t name of None \<Rightarrow> perm | Some (old, q) \<Rightarrow> q)
                in (None, w\<lparr>dirs := (dirs w)(d \<mapsto> AList.update name (data, p) t)\<rparr>))))"

text \<open>
  \<^verbatim>\<open>os.RemoveAll(path)\<close>: the directory and everything in it is gone; when it fails, some of
  the content may already have been removed.
\<close>

definition RemoveAll :: "outside \<Rightarrow> path \<Rightarrow> world \<Rightarrow> string option \<times> world" where
  "RemoveAll ext p w =
     (case removeAll_err ext p w of
        None \<Rightarrow> (None, w\<lparr>dirs := (dirs w)(p := None)\<rparr>)
      | Some (msg, keep) \<Rightarrow>
          (Some msg,
           w\<lparr>dirs := (dirs w)(p := map_option (filter (\<lambda>(n, f). keep n)) (dirs w p))\<rparr>))"

text \<open>
  \<^verbatim>\<open>os.Rename(old, new)\<close>: the old directory must exist, and a directory at the new path
  must be empty; a failed rename changes nothing.
\<close>

definition Rename :: "outside \<Rightarrow> path \<Rightarrow> path \<Rightarrow> world \<Rightarrow> string option \<times> world" where
  "Rename ext old new w =
     (case rename_err ext old new w of
        Some msg \<Rightarrow> (Some msg, w)
      | None \<Rightarrow>
          (case dirs w old of
             None \<Rightarrow> (Some ''no such file or directory'', w)
           | Some t \<Rightarrow>
               (case dirs w new of
                  Some (x # xs) \<Rightarrow> (Some ''directory not empty'', w)
                | _ \<Rightarrow> (None, w\<lparr>dirs := (dirs w)(old := None, new \<mapsto> t)\<rparr>))))"

subsection \<open>External commands and the cache\<close>

text \<open>
  \<^verbatim>\<open>runner.Run\<close> (git) and \<^verbatim>\<open>hg.run\<close> (hg): the command is logged and run in \<open>dstPath\<close>; an
  error of the command becomes an error that carries the arguments and the standard error.
  An environment of \<open>None\<close> is Go's \<^verbatim>\<open>nil\<close>: the command inherits the environment.
  Of the directories of the world, a command changes its working directory only.
\<close>

definition Run ::
  "outside \<Rightarrow> string \<Rightarrow> string list \<Rightarrow> string list option \<Rightarrow> path \<Rightarrow> world
     \<Rightarrow> (error + string \<times> string) \<times> world" where
  "Run ext prog as env dstPath w =
     (let c = Command prog as env dstPath;
          r = exec ext c w;
          w' = w\<lparr>dirs := (dirs w)(dstPath := snd r), cmds := cmds w @ [c]\<rparr>
      in case fst r of
           Inl (err, stderr) \<Rightarrow> (Inl (CommandFailed prog as err stderr), w')
         | Inr res \<Rightarrow> (Inr res, w'))"

text \<open>\<^verbatim>\<open>runner.RunMultiple\<close>: the commands in order, stopping at the first error.\<close>

fun RunMultiple ::
  "outside \<Rightarrow> string list list \<Rightarrow> string list option \<Rightarrow> path \<Rightarrow> world
     \<Rightarrow> error option \<times> world" where
  "RunMultiple ext [] env dstPath w = (None, w)"
| "RunMultiple ext (as # argss) env dstPath w =
     (case Run ext ''git'' as env dstPath w of
        (Inl e, w') \<Rightarrow> (Some e, w')
      | (Inr res, w') \<Rightarrow> RunMultiple ext argss env dstPath w')"

text \<open>
  Modelled from the spec: the cache (\<^verbatim>\<open>ctlcache.Cache\<close>) is not among the sources. \<open>Has\<close> is
  the probe, \<open>CopyFrom\<close> copies an entry into a directory, \<open>Save\<close> stores a directory as an
  entry. Each call is logged; what it answers, and what a copy leaves in the directory, is
  up to the outside.
\<close>

definition cache_Has :: "outside \<Rightarrow> string \<Rightarrow> string \<Rightarrow> world \<Rightarrow> path option \<times> world" where
  "cache_Has ext ty ident w =
     (cacheHas ext ty ident w, w\<lparr>cacheOps := cacheOps w @ [Has ty ident]\<rparr>)"

definition cache_CopyFrom ::
  "outside \<Rightarrow> string \<Rightarrow> string \<Rightarrow> path \<Rightarrow> world \<Rightarrow> error option \<times> world" where
  "cache_CopyFrom ext ty ident dst w =
     (let r = cacheCopyFrom ext ty ident dst w
      in (map_option External (fst r),
          w\<lparr>dirs := (dirs w)(dst := snd r), cacheOps := cacheOps w @ [CopyFrom ty ident dst]\<rparr>))"

definition cache_Save ::
  "outside \<Rightarrow> string \<Rightarrow> string \<Rightarrow> path \<Rightarrow> world \<Rightarrow> error option \<times> world" where
  "cache_Save ext ty ident src w =
     (map_option External (cacheSave ext ty ident src w),
      w\<lparr>cacheOps := cacheOps w @ [Save ty ident src]\<rparr>)"

section \<open>Lock record summaries\<close>

text \<open>\<^verbatim>\<open>Sync.singleLineCommitTitle\<close> of the git backend.\<close>

definition singleLineCommitTitle :: "string \<Rightarrow> string" where
  "singleLineCommitTitle inp =
     (let pieces = SplitN2 inp in
      if length pieces > 1 then hd pieces @ ''...'' else hd pieces)"

text \<open>\<^verbatim>\<open>Sync.singleLineChangeSetTitle\<close> of the hg backend.\<close>

definition singleLineChangeSetTitle :: "string \<Rightarrow> string" where
  "singleLineChangeSetTitle inp =
     (let pieces = SplitN2 inp in
      if length pieces > 1 then hd pieces @ ''...'' else hd pieces)"

section \<open>Configuration and secrets\<close>

text \<open>
  The fields of \<^verbatim>\<open>ctlconf.DirectoryContentsGit\<close> and \<^verbatim>\<open>ctlconf.DirectoryContentsHg\<close> that
  the code reads. Both have \<open>URL\<close>, \<open>Ref\<close> and \<open>SecretRef\<close> (the name of the secret, when
  there is one); they are the common part of the two records.
\<close>

record DirectoryContents =
  URL :: string
  Ref :: string
  SecretRef :: "string option"

record DirectoryContentsGit = DirectoryContents +
  RefSelection :: "VersionSelection option"
  Verification :: "Verification option"
  LFSSkipSmudge :: bool
  DangerousSkipTLSVerify :: bool
  SkipInitSubmodules :: bool
  Depth :: int
  ForceHTTPBasicAuth :: bool
  SparseCheckout :: bool

record DirectoryContentsHg = DirectoryContents +
  Evolve :: bool

record ContentPaths =
  IncludePaths :: "string list"
  ExcludePaths :: "string list"

text \<open>
  Modelled from the spec: the four recognized field names of a secret are constants of
  package config, which is not among the sources. The spec lists them as SSH private key,
  SSH known-hosts, basic-auth username and basic-auth password. The general properties
  below use only that the switch has these four cases, not the values given here.
\<close>

definition SecretK8sCoreV1SSHAuthPrivateKey :: string where
  "SecretK8sCoreV1SSHAuthPrivateKey = ''ssh-privatekey''"

definition SecretSSHAuthKnownHosts :: string where
  "SecretSSHAuthKnownHosts = ''ssh-knownhosts''"

definition SecretK8sCorev1BasicAuthUsernameKey :: string where
  "SecretK8sCorev1BasicAuthUsernameKey = ''username''"

definition SecretK8sCorev1BasicAuthPasswordKey :: string where
  "SecretK8sCorev1BasicAuthPasswordKey = ''password''"

text \<open>
  \<^verbatim>\<open>gitAuthOpts\<close> and \<^verbatim>\<open>hgAuthOpts\<close> are the same struct of four optional strings, and
  \<^verbatim>\<open>IsPresent\<close> is the same method on both.
\<close>

record AuthOpts =
  PrivateKey :: "string option"
  KnownHosts :: "string option"
  Username :: "string option"
  Password :: "string option"

definition noAuthOpts :: AuthOpts where
  "noAuthOpts = \<lparr>PrivateKey = None, KnownHosts = None, Username = None, Password = None\<rparr>"

definition IsPresent :: "AuthOpts \<Rightarrow> bool" where
  "IsPresent a =
     (PrivateKey a \<noteq> None \<or> KnownHosts a \<noteq> None \<or> Username a \<noteq> None \<or> Password a \<noteq> None)"

text \<open>
  The loop of \<^verbatim>\<open>getAuthOpts\<close> over the fields of the secret, the same switch in both
  backends: a recognized name sets its field, any other name ends the loop with an error
  that carries the field name and the name of the secret.
\<close>

fun authFields :: "string \<Rightarrow> (string \<times> string) list \<Rightarrow> AuthOpts \<Rightarrow> error + AuthOpts" where
  "authFields secretName [] a = Inr a"
| "authFields secretName ((name, val) # rest) a =
     (if name = SecretK8sCoreV1SSHAuthPrivateKey
        then authFields secretName rest (a\<lparr>PrivateKey := Some val\<rparr>)
      else if name = SecretSSHAuthKnownHosts
        then authFields secretName rest (a\<lparr>KnownHosts := Some val\<rparr>)
      else if name = SecretK8sCorev1BasicAuthUsernameKey
        then authFields secretName rest (a\<lparr>Username := Some val\<rparr>)
      else if name = SecretK8sCorev1BasicAuthPasswordKey
        then authFields secretName rest (a\<lparr>Password := Some val\<rparr>)
      else Inl (UnknownSecretField name secretName))"

text \<open>The names with a case of their own in the switch.\<close>

definition recognizedField :: "string \<Rightarrow> bool" where
  "recognizedField n =
     (n = SecretK8sCoreV1SSHAuthPrivateKey \<or> n = SecretSSHAuthKnownHosts
      \<or> n = SecretK8sCorev1BasicAuthUsernameKey \<or> n = SecretK8sCorev1BasicAuthPasswordKey)"

text \<open>\<^verbatim>\<open>Git.getAuthOpts\<close>.\<close>

definition git_getAuthOpts :: "outside \<Rightarrow> DirectoryContentsGit \<Rightarrow> error + AuthOpts" where
  "git_getAuthOpts ext opts =
     (case SecretRef opts of
        None \<Rightarrow> Inr noAuthOpts
      | Some name \<Rightarrow>
          (case getSecret ext name of
             Inl msg \<Rightarrow> Inl (External msg)
           | Inr secretData \<Rightarrow> authFields name secretData noAuthOpts))"

text \<open>\<^verbatim>\<open>hg.getAuthOpts\<close>.\<close>

definition hg_getAuthOpts :: "outside \<Rightarrow> DirectoryContentsHg \<Rightarrow> error + AuthOpts" where
  "hg_getAuthOpts ext opts =
     (case SecretRef opts of
        None \<Rightarrow> Inr noAuthOpts
      | Some name \<Rightarrow>
          (case getSecret ext name of
             Inl msg \<Rightarrow> Inl (External msg)
           | Inr secretData \<Rightarrow> authFields name secretData noAuthOpts))"

text \<open>The first elements of the \<^verbatim>\<open>ssh\<close> command line, the same in both backends.\<close>

definition sshBase :: "string list" where
  "sshBase = [''ssh'', ''-o'', ''ServerAliveInterval=30'', ''-o'', ''ForwardAgent=no'',
              ''-F'', ''/dev/null'']"

section \<open>The git backend\<close>

text \<open>
  \<^verbatim>\<open>GitInfo\<close> and \<^verbatim>\<open>hgInfo\<close> both start with the field \<open>SHA\<close>, the common part of the two
  records.
\<close>

record RevisionInfo =
  SHA :: string

record GitInfo = RevisionInfo +
  Tags :: "string list"
  CommitTitle :: string

definition emptyGitInfo :: GitInfo where
  "emptyGitInfo = \<lparr>SHA = [], Tags = [], CommitTitle = []\<rparr>"

subsection \<open>\<^verbatim>\<open>Git.fetch\<close>\<close>

text \<open>
  \<^verbatim>\<open>if authOpts.IsPresent() { ... }\<close>: the private key (with a newline appended) and the
  known hosts are written into the auth directory, and the \<^verbatim>\<open>ssh\<close> command line goes into
  the environment. The result is the environment for the commands.
\<close>

definition git_stagePrivateKey ::
  "outside \<Rightarrow> AuthOpts \<Rightarrow> path \<Rightarrow> world \<Rightarrow> (error + string list) \<times> world" where
  "git_stagePrivateKey ext a authDir w =
     (case PrivateKey a of
        None \<Rightarrow> (Inr sshBase, w)
      | Some key \<Rightarrow>
          (case WriteFile ext authDir ''private-key'' (key @ ''\<newline>'') perm0600 w of
             (Some msg, w') \<Rightarrow> (Inl (WritingPrivateKey msg), w')
           | (None, w') \<Rightarrow>
               (Inr (sshBase @ [''-i'', Join authDir ''private-key'', ''-o'',
                                ''IdentitiesOnly=yes'']), w')))"

definition stageKnownHosts ::
  "outside \<Rightarrow> AuthOpts \<Rightarrow> path \<Rightarrow> string list \<Rightarrow> world \<Rightarrow> (error + string list) \<times> world" where
  "stageKnownHosts ext a authDir sshCmd w =
     (case KnownHosts a of
        None \<Rightarrow> (Inr (sshCmd @ [''-o'', ''StrictHostKeyChecking=no'']), w)
      | Some hosts \<Rightarrow>
          (case WriteFile ext authDir ''known-hosts'' hosts perm0600 w of
             (Some msg, w') \<Rightarrow> (Inl (WritingKnownHosts msg), w')
           | (None, w') \<Rightarrow>
               (Inr (sshCmd @ [''-o'', ''StrictHostKeyChecking=yes'', ''-o'',
                               ''UserKnownHostsFile='' @ Join authDir ''known-hosts'']), w')))"

definition git_stageSSH ::
  "outside \<Rightarrow> AuthOpts \<Rightarrow> path \<Rightarrow> string list \<Rightarrow> world \<Rightarrow> (error + string list) \<times> world" where
  "git_stageSSH ext a authDir env w =
     (if IsPresent a then
        (case git_stagePrivateKey ext a authDir w of
           (Inl e, w1) \<Rightarrow> (Inl e, w1)
         | (Inr sshCmd, w1) \<Rightarrow>
             (case stageKnownHosts ext a authDir sshCmd w1 of
                (Inl e, w2) \<Rightarrow> (Inl e, w2)
              | (Inr sshCmd', w2) \<Rightarrow>
                  (Inr (env @ [''GIT_SSH_COMMAND='' @ Join_sp sshCmd']), w2)))
      else (Inr env, w))"

text \<open>The two flags that add a variable to the environment.\<close>

definition git_envFlags :: "DirectoryContentsGit \<Rightarrow> string list \<Rightarrow> string list" where
  "git_envFlags opts env =
     (let env1 = (if LFSSkipSmudge opts then env @ [''GIT_LFS_SKIP_SMUDGE=1''] else env)
      in if DangerousSkipTLSVerify opts then env1 @ [''GIT_SSL_NO_VERIFY=true''] else env1)"

text \<open>The first three commands, and the sparse checkout when paths are given.\<close>

definition git_initArgs :: "DirectoryContentsGit \<Rightarrow> ContentPaths \<Rightarrow> path \<Rightarrow> string list list" where
  "git_initArgs opts contentPaths authDir =
     [[''init''],
      [''config'', ''credential.helper'', ''store --file '' @ Join authDir ''.git-credentials''],
      [''remote'', ''add'', ''origin'', URL opts]]
     @ (if SparseCheckout opts
          \<and> (length (IncludePaths contentPaths) > 0 \<or> length (ExcludePaths contentPaths) > 0)
        then [[''sparse-checkout'', ''set'', ''--no-cone'']
                @ IncludePaths contentPaths
                @ map (\<lambda>exclude. ''!'' @ exclude) (ExcludePaths contentPaths)]
        else [])"

text \<open>
  \<^verbatim>\<open>if authOpts.Username != nil && authOpts.Password != nil { ... }\<close>: only for an https
  remote; either one more \<^verbatim>\<open>config\<close> command with the header, or the credentials file.
\<close>

definition git_basicAuth ::
  "outside \<Rightarrow> DirectoryContentsGit \<Rightarrow> AuthOpts \<Rightarrow> path \<Rightarrow> world
     \<Rightarrow> (error + string list list) \<times> world" where
  "git_basicAuth ext opts a authDir w =
     (case (Username a, Password a) of
        (Some username, Some password) \<Rightarrow>
          (if \<not> HasPrefix (URL opts) ''https://'' then (Inl UserPassOnlyHTTPS, w)
           else if ForceHTTPBasicAuth opts then
             (Inr [[''config'', ''--add'', ''http.extraHeader'',
                    ''Authorization: Basic '' @ base64 ext (username @ '':'' @ password)]], w)
           else
             (case urlWithUserinfo ext (URL opts) username password of
                Inl msg \<Rightarrow> (Inl (ParsingRemoteURL msg), w)
              | Inr credsURL \<Rightarrow>
                  (case WriteFile ext authDir ''.git-credentials'' (credsURL @ ''\<newline>'')
                          perm0600 w of
                     (Some msg, w') \<Rightarrow>
                       (Inl (WritingFile (Join authDir ''.git-credentials'') msg), w')
                   | (None, w') \<Rightarrow> (Inr [], w'))))
      | _ \<Rightarrow> (Inr [], w))"

text \<open>The commands after the authentication: tag option, the cached bundle, the fetch.\<close>

definition git_fetchArgs :: "DirectoryContentsGit \<Rightarrow> string list" where
  "git_fetchArgs opts =
     [''fetch'', ''origin'']
     @ (if HasPrefix (Ref opts) ''origin/'' then [drop 7 (Ref opts)] else [])
     @ (if Depth opts > 0 then [''--depth'', Itoa (Depth opts)] else [])"

definition git_lastArgs :: "DirectoryContentsGit \<Rightarrow> string \<Rightarrow> string list list" where
  "git_lastArgs opts bundle =
     [[''config'', ''remote.origin.tagOpt'', ''--tags'']]
     @ (if bundle \<noteq> [] then [[''bundle'', ''unbundle'', bundle]] else [])
     @ [git_fetchArgs opts]"

text \<open>\<^verbatim>\<open>Git.tags\<close>.\<close>

definition git_tags :: "outside \<Rightarrow> path \<Rightarrow> world \<Rightarrow> (error + string list) \<times> world" where
  "git_tags ext dstPath w =
     (case Run ext ''git'' [''tag'', ''-l''] None dstPath w of
        (Inl e, w') \<Rightarrow> (Inl e, w')
      | (Inr (out, err), w') \<Rightarrow> (Inr (Split out), w'))"

text \<open>\<^verbatim>\<open>Git.resolveRef\<close>.\<close>

definition git_resolveRef ::
  "outside \<Rightarrow> DirectoryContentsGit \<Rightarrow> path \<Rightarrow> world \<Rightarrow> (error + string) \<times> world" where
  "git_resolveRef ext opts dstPath w =
     (if length (Ref opts) > 0 then
        (if HasPrefix (Ref opts) ''origin/'' then (Inr (drop 7 (Ref opts)), w)
         else (Inr (Ref opts), w))
      else
        (case RefSelection opts of
           Some sel \<Rightarrow>
             (case git_tags ext dstPath w of
                (Inl e, w') \<Rightarrow> (Inl e, w')
              | (Inr tags, w') \<Rightarrow>
                  (case highestConstrainedVersion ext tags sel of
                     Inl msg \<Rightarrow> (Inl (External msg), w')
                   | Inr v \<Rightarrow> (Inr v, w')))
         | None \<Rightarrow> (Inl ExpectedRefOrRefSelection, w)))"

text \<open>\<^verbatim>\<open>if t.opts.Verification != nil { ... }\<close>.\<close>

definition git_verify ::
  "outside \<Rightarrow> DirectoryContentsGit \<Rightarrow> path \<Rightarrow> string \<Rightarrow> world \<Rightarrow> error option \<times> world" where
  "git_verify ext opts dstPath ref w =
     (case Verification opts of
        None \<Rightarrow> (None, w)
      | Some v \<Rightarrow>
          (let r = verify ext v dstPath ref w
           in (map_option External (fst r), w\<lparr>dirs := (dirs w)(dstPath := snd r)\<rparr>)))"

text \<open>
  The end of \<^verbatim>\<open>Git.fetch\<close>, after the fetch commands: resolve the ref, verify it, check it
  out, update the submodules.
\<close>

definition git_checkout ::
  "outside \<Rightarrow> DirectoryContentsGit \<Rightarrow> string list \<Rightarrow> path \<Rightarrow> world \<Rightarrow> error option \<times> world" where
  "git_checkout ext opts env dstPath w =
     (case git_resolveRef ext opts dstPath w of
        (Inl e, w1) \<Rightarrow> (Some e, w1)
      | (Inr ref, w1) \<Rightarrow>
          (case git_verify ext opts dstPath ref w1 of
             (Some e, w2) \<Rightarrow> (Some e, w2)
           | (None, w2) \<Rightarrow>
               (case Run ext ''git'' [''-c'', ''advice.detachedHead=false'', ''checkout'', ref]
                       (Some env) dstPath w2 of
                  (Inl e, w3) \<Rightarrow> (Some e, w3)
                | (Inr res, w3) \<Rightarrow>
                    (if \<not> SkipInitSubmodules opts then
                       (case Run ext ''git'' [''submodule'', ''update'', ''--init'', ''--recursive'']
                               (Some env) dstPath w3 of
                          (Inl e, w4) \<Rightarrow> (Some e, w4)
                        | (Inr res', w4) \<Rightarrow> (None, w4))
                     else (None, w3)))))"

text \<open>\<^verbatim>\<open>Git.fetch\<close> from \<^verbatim>\<open>env := os.Environ()\<close> on, the part that the deferred removal of
  the auth directory follows.\<close>

definition git_fetchBody ::
  "outside \<Rightarrow> DirectoryContentsGit \<Rightarrow> ContentPaths \<Rightarrow> AuthOpts \<Rightarrow> path \<Rightarrow> path \<Rightarrow> string
     \<Rightarrow> world \<Rightarrow> error option \<times> world" where
  "git_fetchBody ext opts contentPaths a authDir dstPath bundle w =
     (case git_stageSSH ext a authDir (environ ext) w of
        (Inl e, w1) \<Rightarrow> (Some e, w1)
      | (Inr env0, w1) \<Rightarrow>
          (let env = git_envFlags opts env0 in
           case git_basicAuth ext opts a authDir w1 of
             (Inl e, w2) \<Rightarrow> (Some e, w2)
           | (Inr authArgs, w2) \<Rightarrow>
               (case RunMultiple ext
                       (git_initArgs opts contentPaths authDir @ authArgs
                          @ git_lastArgs opts bundle)
                       (Some env) dstPath w2 of
                  (Some e, w3) \<Rightarrow> (Some e, w3)
                | (None, w3) \<Rightarrow> git_checkout ext opts env dstPath w3)))"

text \<open>
  \<^verbatim>\<open>Git.fetch\<close>: \<^verbatim>\<open>defer os.RemoveAll(authDir)\<close> runs when the function returns, whatever
  the body returned, and its own error is dropped.
\<close>

definition git_fetch ::
  "outside \<Rightarrow> DirectoryContentsGit \<Rightarrow> ContentPaths \<Rightarrow> path \<Rightarrow> string \<Rightarrow> world
     \<Rightarrow> error option \<times> world" where
  "git_fetch ext opts contentPaths dstPath bundle w =
     (case git_getAuthOpts ext opts of
        Inl e \<Rightarrow> (Some e, w)
      | Inr a \<Rightarrow>
          (case NewTempDir ext ''git-auth'' w of
             (Inl e, w1) \<Rightarrow> (Some e, w1)
           | (Inr authDir, w1) \<Rightarrow>
               (case git_fetchBody ext opts contentPaths a authDir dstPath bundle w1 of
                  (r, w2) \<Rightarrow> (r, snd (RemoveAll ext authDir w2)))))"

subsection \<open>\<^verbatim>\<open>Git.Retrieve\<close>\<close>

text \<open>
  The tags are set only when \<^verbatim>\<open>describe --tags\<close> succeeds; its error is not returned.
\<close>

definition git_Retrieve ::
  "outside \<Rightarrow> DirectoryContentsGit \<Rightarrow> ContentPaths \<Rightarrow> path \<Rightarrow> string \<Rightarrow> world
     \<Rightarrow> (error + GitInfo) \<times> world" where
  "git_Retrieve ext opts contentPaths dstPath bundle w =
     (if length (URL opts) = 0 then (Inl ExpectedNonEmptyURL, w)
      else
        (case git_fetch ext opts contentPaths dstPath bundle w of
           (Some e, w1) \<Rightarrow> (Inl e, w1)
         | (None, w1) \<Rightarrow>
             (case Run ext ''git'' [''rev-parse'', ''HEAD''] None dstPath w1 of
                (Inl e, w2) \<Rightarrow> (Inl e, w2)
              | (Inr (out, err), w2) \<Rightarrow>
                  (let sha = TrimSpace out in
                   case Run ext ''git'' [''describe'', ''--tags'', sha] None dstPath w2 of
                     (r, w3) \<Rightarrow>
                       (let tags = (case r of Inl e \<Rightarrow> []
                                            | Inr (out', err') \<Rightarrow> Split (TrimSpace out'))
                        in case Run ext ''git'' [''log'', ''-n'', ''1'', ''--pretty=%B'', sha]
                                  None dstPath w3 of
                             (Inl e, w4) \<Rightarrow> (Inl e, w4)
                           | (Inr (out'', err''), w4) \<Rightarrow>
                               (Inr \<lparr>SHA = sha, Tags = tags,
                                     CommitTitle = TrimSpace out''\<rparr>, w4))))))"

subsection \<open>\<^verbatim>\<open>Sync.Sync\<close> of the git backend\<close>

text \<open>
  The lock record \<^verbatim>\<open>ctlconf.LockDirectoryContentsGit\<close> has the three fields of \<open>GitInfo\<close>.
  \<open>Sync\<close> returns the lock record together with the error, if any.

  \<open>Sync\<close> is in two parts: \<open>git_stage\<close> is the function up to the replacement of the
  destination; it returns the lock record, the error or the path of the staging directory,
  and the deferred calls registered so far. Every deferred call of this backend is
  \<^verbatim>\<open>os.RemoveAll\<close>, so the list holds the paths, the last one registered first.
  \<open>replaceDir\<close> is the removal of the destination and the rename.
\<close>

definition gitCacheType :: string where
  "gitCacheType = ''git-bundle''"

definition git_cacheID :: "DirectoryContentsGit \<Rightarrow> string" where
  "git_cacheID opts = Sprintf_x (Sum256 (URL opts))"

text \<open>The loop that keeps the trimmed, non-empty lines of \<^verbatim>\<open>for-each-ref\<close>.\<close>

definition git_refs :: "string \<Rightarrow> string list" where
  "git_refs out = filter (\<lambda>ref. ref \<noteq> []) (map TrimSpace (Split out))"

text \<open>\<^verbatim>\<open>if _, ok := d.cache.(*ctlcache.NoCache); !ok { ... }\<close> after the temporary directory
  for the bundle was made.\<close>

definition git_saveBundle ::
  "outside \<Rightarrow> string \<Rightarrow> path \<Rightarrow> path \<Rightarrow> world \<Rightarrow> error option \<times> world" where
  "git_saveBundle ext cacheID bundleDir incomingTmpPath w =
     (case Run ext ''git'' [''for-each-ref'', ''--format=%(refname)''] None incomingTmpPath w of
        (Inl e, w1) \<Rightarrow> (Some e, w1)
      | (Inr (out, err), w1) \<Rightarrow>
          (case Run ext ''git'' ([''bundle'', ''create'', Join bundleDir ''bundle''] @ git_refs out)
                  None incomingTmpPath w1 of
             (Inl e, w2) \<Rightarrow> (Some e, w2)
           | (Inr res, w2) \<Rightarrow> cache_Save ext gitCacheType cacheID bundleDir w2))"

definition git_cacheBundle ::
  "outside \<Rightarrow> string \<Rightarrow> path \<Rightarrow> world \<Rightarrow> (error option \<times> path list) \<times> world" where
  "git_cacheBundle ext cacheID incomingTmpPath w =
     (if \<not> noCache ext then
        (case NewTempDir ext ''bundleCache'' w of
           (Inl e, w1) \<Rightarrow> ((Some e, []), w1)
         | (Inr bundleDir, w1) \<Rightarrow>
             (case git_saveBundle ext cacheID bundleDir incomingTmpPath w1 of
                (r, w2) \<Rightarrow> ((r, [bundleDir]), w2)))
      else ((None, []), w))"

definition git_stage ::
  "outside \<Rightarrow> DirectoryContentsGit \<Rightarrow> ContentPaths \<Rightarrow> world
     \<Rightarrow> ((GitInfo \<times> (error + path)) \<times> path list) \<times> world" where
  "git_stage ext opts contentPaths w =
     (case NewTempDir ext ''git'' w of
        (Inl e, w1) \<Rightarrow> (((emptyGitInfo, Inl e), []), w1)
      | (Inr incomingTmpPath, w1) \<Rightarrow>
          (let cacheID = git_cacheID opts in
           case cache_Has ext gitCacheType cacheID w1 of
             (hasCache, w2) \<Rightarrow>
               (let bundle = (case hasCache of None \<Rightarrow> []
                                             | Some cacheEntry \<Rightarrow> Join cacheEntry ''bundle'')
                in case git_Retrieve ext opts contentPaths incomingTmpPath bundle w2 of
                     (Inl e, w3) \<Rightarrow>
                       (((emptyGitInfo, Inl (Wrapped ''Fetching git repository'' e)),
                         [incomingTmpPath]), w3)
                   | (Inr info, w3) \<Rightarrow>
                       (let gitLockConf = \<lparr>SHA = SHA info, Tags = Tags info,
                              CommitTitle = singleLineCommitTitle (CommitTitle info)\<rparr>
                        in case git_cacheBundle ext cacheID incomingTmpPath w3 of
                             ((Some e, ds), w4) \<Rightarrow>
                               (((gitLockConf, Inl e),
                                 ds @ [incomingTmpPath]), w4)
                           | ((None, ds), w4) \<Rightarrow>
                               (((gitLockConf, Inr incomingTmpPath),
                                 ds @ [incomingTmpPath]), w4)))))"

text \<open>
  \<^verbatim>\<open>os.RemoveAll(dstPath)\<close>, then \<^verbatim>\<open>os.Rename(incomingTmpPath, dstPath)\<close>: the last two steps
  of \<open>Sync\<close> in both backends.
\<close>

definition replaceDir :: "outside \<Rightarrow> path \<Rightarrow> path \<Rightarrow> world \<Rightarrow> error option \<times> world" where
  "replaceDir ext incomingTmpPath dstPath w =
     (case RemoveAll ext dstPath w of
        (Some msg, w1) \<Rightarrow> (Some (DeletingDir dstPath msg), w1)
      | (None, w1) \<Rightarrow>
          (case Rename ext incomingTmpPath dstPath w1 of
             (Some msg, w2) \<Rightarrow> (Some (MovingDirectory incomingTmpPath msg), w2)
           | (None, w2) \<Rightarrow> (None, w2)))"

text \<open>The deferred removals run in order; their errors are dropped.\<close>

fun git_runDeferred :: "outside \<Rightarrow> path list \<Rightarrow> world \<Rightarrow> world" where
  "git_runDeferred ext [] w = w"
| "git_runDeferred ext (p # ds) w = git_runDeferred ext ds (snd (RemoveAll ext p w))"

definition git_Sync ::
  "outside \<Rightarrow> DirectoryContentsGit \<Rightarrow> ContentPaths \<Rightarrow> path \<Rightarrow> world
     \<Rightarrow> (GitInfo \<times> error option) \<times> world" where
  "git_Sync ext opts contentPaths dstPath w =
     (case git_stage ext opts contentPaths w of
        (((gitLockConf, Inl e), ds), w1) \<Rightarrow> ((gitLockConf, Some e), git_runDeferred ext ds w1)
      | (((gitLockConf, Inr incomingTmpPath), ds), w1) \<Rightarrow>
          (case replaceDir ext incomingTmpPath dstPath w1 of
             (r, w2) \<Rightarrow> ((gitLockConf, r), git_runDeferred ext ds w2)))"

section \<open>The hg backend\<close>

text \<open>
  The struct \<^verbatim>\<open>hg\<close>: the log writer and the secret fetcher are part of the outside; \<open>env\<close>
  is \<^verbatim>\<open>nil\<close> until \<^verbatim>\<open>setup\<close> sets it.
\<close>

record hg =
  opts :: DirectoryContentsHg
  authDir :: string
  env :: "string list option"
  cacheID :: string

record hgInfo = RevisionInfo +
  ChangeSetTitle :: string

definition emptyHgInfo :: hgInfo where
  "emptyHgInfo = \<lparr>SHA = [], ChangeSetTitle = []\<rparr>"

definition getCacheID :: "hg \<Rightarrow> string" where
  "getCacheID t = cacheID t"

text \<open>\<^verbatim>\<open>hg.run\<close>.\<close>

definition hg_run ::
  "outside \<Rightarrow> hg \<Rightarrow> string list \<Rightarrow> path \<Rightarrow> world \<Rightarrow> (error + string \<times> string) \<times> world" where
  "hg_run ext t as dstPath w = Run ext ''hg'' as (env t) dstPath w"

text \<open>\<^verbatim>\<open>hg.cloneHasTargetRef\<close>.\<close>

definition cloneHasTargetRef :: "outside \<Rightarrow> hg \<Rightarrow> path \<Rightarrow> world \<Rightarrow> bool \<times> world" where
  "cloneHasTargetRef ext t dstPath w =
     (case hg_run ext t [''id'', ''--id'', ''-r'', Ref (opts t)] dstPath w of
        (Inl e, w') \<Rightarrow> (False, w')
      | (Inr (out, err), w') \<Rightarrow>
          (if HasPrefix (Ref (opts t)) (TrimSpace out) then (True, w') else (False, w')))"

text \<open>\<^verbatim>\<open>hg.initClone\<close>.\<close>

definition initClone :: "outside \<Rightarrow> hg \<Rightarrow> path \<Rightarrow> world \<Rightarrow> error option \<times> world" where
  "initClone ext t dstPath w =
     (case hg_run ext t [''init''] dstPath w of
        (Inl e, w1) \<Rightarrow> (Some e, w1)
      | (Inr res, w1) \<Rightarrow>
          (case WriteFile ext dstPath ''.hg/hgrc''
                  (''[paths]\<newline>default = '' @ URL (opts t) @ ''\<newline>'') perm0600 w1 of
             (Some msg, w2) \<Rightarrow> (Some (WritingFile (Join dstPath ''.hg/hgrc'') msg), w2)
           | (None, w2) \<Rightarrow> (None, w2)))"

text \<open>\<^verbatim>\<open>hg.syncClone\<close>.\<close>

definition syncClone :: "outside \<Rightarrow> hg \<Rightarrow> path \<Rightarrow> world \<Rightarrow> error option \<times> world" where
  "syncClone ext t dstPath w =
     (case hg_run ext t [''pull''] dstPath w of
        (Inl e, w') \<Rightarrow> (Some e, w')
      | (Inr res, w') \<Rightarrow> (None, w'))"

text \<open>\<^verbatim>\<open>hg.clone\<close>.\<close>

definition clone :: "outside \<Rightarrow> hg \<Rightarrow> path \<Rightarrow> world \<Rightarrow> error option \<times> world" where
  "clone ext t dstPath w =
     (case initClone ext t dstPath w of
        (Some e, w') \<Rightarrow> (Some e, w')
      | (None, w') \<Rightarrow> syncClone ext t dstPath w')"

text \<open>\<^verbatim>\<open>hg.checkout\<close>.\<close>

definition checkout :: "outside \<Rightarrow> hg \<Rightarrow> path \<Rightarrow> world \<Rightarrow> (error + hgInfo) \<times> world" where
  "checkout ext t dstPath w =
     (case hg_run ext t [''checkout'', Ref (opts t)] dstPath w of
        (Inl e, w1) \<Rightarrow> (Inl e, w1)
      | (Inr res, w1) \<Rightarrow>
          (case hg_run ext t [''log'', ''-r'', ''.'', ''-T'', ''{node}''] dstPath w1 of
             (Inl e, w2) \<Rightarrow> (Inl e, w2)
           | (Inr (out, err), w2) \<Rightarrow>
               (let sha = TrimSpace out in
                case hg_run ext t [''log'', ''-l'', ''1'', ''-T'', ''{desc|firstline|strip}'',
                                   ''-r'', sha] dstPath w2 of
                  (Inl e, w3) \<Rightarrow> (Inl e, w3)
                | (Inr (out', err'), w3) \<Rightarrow>
                    (Inr \<lparr>SHA = sha, ChangeSetTitle = TrimSpace out'\<rparr>, w3))))"

text \<open>\<^verbatim>\<open>hg.Close\<close>.\<close>

definition Close :: "outside \<Rightarrow> hg \<Rightarrow> world \<Rightarrow> hg \<times> world" where
  "Close ext t w =
     (if authDir t \<noteq> [] then (t\<lparr>authDir := []\<rparr>, snd (RemoveAll ext (authDir t) w))
      else (t, w))"

subsection \<open>\<^verbatim>\<open>hg.setup\<close>\<close>

text \<open>
  \<^verbatim>\<open>if authOpts.Username != nil && authOpts.Password != nil { ... }\<close>: only for an https
  remote; the \<^verbatim>\<open>[auth]\<close> section is appended to the configuration text.
\<close>

definition hg_basicAuth ::
  "outside \<Rightarrow> DirectoryContentsHg \<Rightarrow> AuthOpts \<Rightarrow> string \<Rightarrow> error + string" where
  "hg_basicAuth ext conf a hgRc =
     (case (Username a, Password a) of
        (Some username, Some password) \<Rightarrow>
          (if \<not> HasPrefix (URL conf) ''https://'' then Inl UserPassOnlyHTTPS
           else
             (case urlHost ext (URL conf) of
                Inl msg \<Rightarrow> Inl (ParsingRemoteURL msg)
              | Inr host \<Rightarrow>
                  Inr (hgRc @ ''\<newline>[auth]\<newline>hgauth.prefix = https://'' @ host
                         @ ''\<newline>hgauth.username = '' @ username
                         @ ''\<newline>hgauth.password = '' @ password @ ''\<newline>'')))
      | _ \<Rightarrow> Inr hgRc)"

text \<open>
  \<^verbatim>\<open>if authOpts.IsPresent() { ... }\<close>: the private key, as it is in the secret, and the known
  hosts are written into the auth directory, and the \<^verbatim>\<open>ssh\<close> command line is appended to
  the configuration text.
\<close>

definition hg_stagePrivateKey ::
  "outside \<Rightarrow> AuthOpts \<Rightarrow> path \<Rightarrow> world \<Rightarrow> (error + string list) \<times> world" where
  "hg_stagePrivateKey ext a dir w =
     (case PrivateKey a of
        None \<Rightarrow> (Inr sshBase, w)
      | Some key \<Rightarrow>
          (case WriteFile ext dir ''private-key'' key perm0600 w of
             (Some msg, w') \<Rightarrow> (Inl (WritingPrivateKey msg), w')
           | (None, w') \<Rightarrow>
               (Inr (sshBase @ [''-i'', Join dir ''private-key'', ''-o'',
                                ''IdentitiesOnly=yes'']), w')))"

definition hg_stageSSH ::
  "outside \<Rightarrow> AuthOpts \<Rightarrow> path \<Rightarrow> string \<Rightarrow> world \<Rightarrow> (error + string) \<times> world" where
  "hg_stageSSH ext a dir hgRc w =
     (if IsPresent a then
        (case hg_stagePrivateKey ext a dir w of
           (Inl e, w1) \<Rightarrow> (Inl e, w1)
         | (Inr sshCmd, w1) \<Rightarrow>
             (case stageKnownHosts ext a dir sshCmd w1 of
                (Inl e, w2) \<Rightarrow> (Inl e, w2)
              | (Inr sshCmd', w2) \<Rightarrow>
                  (Inr (hgRc @ ''\<newline>[ui]\<newline>ssh = '' @ Join_sp sshCmd' @ ''\<newline>''), w2)))
      else (Inr hgRc, w))"

text \<open>\<^verbatim>\<open>if len(hgRc) > 0 { ... }\<close>: the configuration file and the variable that names it.\<close>

definition hg_writeRc :: "outside \<Rightarrow> hg \<Rightarrow> string \<Rightarrow> world \<Rightarrow> (error option \<times> hg) \<times> world" where
  "hg_writeRc ext t hgRc w =
     (if length hgRc > 0 then
        (case WriteFile ext (authDir t) ''hgrc'' hgRc perm0600 w of
           (Some msg, w') \<Rightarrow> ((Some (WritingFile (Join (authDir t) ''hgrc'') msg), t), w')
         | (None, w') \<Rightarrow>
             ((None, t\<lparr>env := Some ((case env t of None \<Rightarrow> [] | Some vars \<Rightarrow> vars)
                                       @ [''HGRCPATH='' @ Join (authDir t) ''hgrc''])\<rparr>), w'))
      else ((None, t), w))"

text \<open>
  \<^verbatim>\<open>hg.setup\<close> changes the struct as it goes: the result is the error, if any, and the struct
  as the function leaves it. The cache id is set last, from the URL.
\<close>

definition hg_setup :: "outside \<Rightarrow> hg \<Rightarrow> world \<Rightarrow> (error option \<times> hg) \<times> world" where
  "hg_setup ext t w =
     (if length (URL (opts t)) = 0 then ((Some ExpectedNonEmptyURL, t), w)
      else
        (let cacheID' = URL (opts t) in
         case hg_getAuthOpts ext (opts t) of
           Inl e \<Rightarrow> ((Some e, t), w)
         | Inr a \<Rightarrow>
             (case NewTempDir ext ''hg-auth'' w of
                (Inl e, w1) \<Rightarrow> ((Some e, t), w1)
              | (Inr dir, w1) \<Rightarrow>
                  (let t1 = t\<lparr>authDir := dir, env := Some (environ ext)\<rparr>;
                       hgRc0 = (if Evolve (opts t)
                                then ''[extensions]\<newline>evolve =\<newline>topic ='' else [])
                   in case hg_basicAuth ext (opts t) a hgRc0 of
                        Inl e \<Rightarrow> ((Some e, t1), w1)
                      | Inr hgRc1 \<Rightarrow>
                          (case hg_stageSSH ext a dir hgRc1 w1 of
                             (Inl e, w2) \<Rightarrow> ((Some e, t1), w2)
                           | (Inr hgRc, w2) \<Rightarrow>
                               (case hg_writeRc ext t1 hgRc w2 of
                                  ((Some e, t2), w3) \<Rightarrow> ((Some e, t2), w3)
                                | ((None, t2), w3) \<Rightarrow>
                                    ((None, t2\<lparr>cacheID := EncodeToString (Sum256 cacheID')\<rparr>),
                                     w3)))))))"

text \<open>\<^verbatim>\<open>newHg\<close>: when \<^verbatim>\<open>setup\<close> fails the struct is dropped and only the error returned.\<close>

definition newHg :: "outside \<Rightarrow> DirectoryContentsHg \<Rightarrow> world \<Rightarrow> (error + hg) \<times> world" where
  "newHg ext conf w =
     (case hg_setup ext \<lparr>opts = conf, authDir = [], env = None, cacheID = []\<rparr> w of
        ((Some e, t), w') \<Rightarrow> (Inl e, w')
      | ((None, t), w') \<Rightarrow> (Inr t, w'))"

subsection \<open>\<^verbatim>\<open>Sync.Sync\<close> of the hg backend\<close>

text \<open>
  The lock record \<^verbatim>\<open>ctlconf.LockDirectoryContentsHg\<close> has the two fields of \<open>hgInfo\<close>.
  As for git, \<open>Sync\<close> is in two parts, \<open>hg_stage\<close> and \<open>replaceDir\<close>. The deferred calls
  are the removal of the staging directory and \<^verbatim>\<open>hg.Close()\<close>, the last one registered
  first in the list.
\<close>

datatype deferred = DeferRemoveAll path | DeferClose hg

text \<open>
  \<^verbatim>\<open>if cachePath, ok := d.cache.Has("hg", hg.CacheID()); ok { ... } else { ... }\<close>: with a
  cache entry, copy it into the staging directory and pull only when the cached clone does
  not have the target ref; without one, clone. A pull or a clone is followed by saving the
  staging directory to the cache.
\<close>

definition hg_fromCache ::
  "outside \<Rightarrow> hg \<Rightarrow> path \<Rightarrow> path \<Rightarrow> world \<Rightarrow> error option \<times> world" where
  "hg_fromCache ext t cachePath incomingTmpPath w =
     (case cache_CopyFrom ext ''hg'' (getCacheID t) incomingTmpPath w of
        (Some e, w1) \<Rightarrow> (Some (Wrapped ''Extracting cached hg clone'' e), w1)
      | (None, w1) \<Rightarrow>
          (case cloneHasTargetRef ext t cachePath w1 of
             (hasRef, w2) \<Rightarrow>
               (if \<not> hasRef then
                  (case syncClone ext t incomingTmpPath w2 of
                     (Some e, w3) \<Rightarrow> (Some (Wrapped ''Syncing hg repository'' e), w3)
                   | (None, w3) \<Rightarrow>
                       (case cache_Save ext ''hg'' (getCacheID t) incomingTmpPath w3 of
                          (Some e, w4) \<Rightarrow>
                            (Some (Wrapped ''Saving hg repository to cache'' e), w4)
                        | (None, w4) \<Rightarrow> (None, w4)))
                else (None, w2))))"

definition hg_fresh :: "outside \<Rightarrow> hg \<Rightarrow> path \<Rightarrow> world \<Rightarrow> error option \<times> world" where
  "hg_fresh ext t incomingTmpPath w =
     (case clone ext t incomingTmpPath w of
        (Some e, w1) \<Rightarrow> (Some (Wrapped ''Cloning hg repository'' e), w1)
      | (None, w1) \<Rightarrow>
          (case cache_Save ext ''hg'' (getCacheID t) incomingTmpPath w1 of
             (Some e, w2) \<Rightarrow> (Some (Wrapped ''Saving hg repository to cache'' e), w2)
           | (None, w2) \<Rightarrow> (None, w2)))"

definition hg_populate :: "outside \<Rightarrow> hg \<Rightarrow> path \<Rightarrow> world \<Rightarrow> error option \<times> world" where
  "hg_populate ext t incomingTmpPath w =
     (case cache_Has ext ''hg'' (getCacheID t) w of
        (Some cachePath, w1) \<Rightarrow> hg_fromCache ext t cachePath incomingTmpPath w1
      | (None, w1) \<Rightarrow> hg_fresh ext t incomingTmpPath w1)"

definition hg_stage ::
  "outside \<Rightarrow> DirectoryContentsHg \<Rightarrow> world
     \<Rightarrow> ((hgInfo \<times> (error + path)) \<times> deferred list) \<times> world" where
  "hg_stage ext conf w =
     (case NewTempDir ext ''hg'' w of
        (Inl e, w1) \<Rightarrow> (((emptyHgInfo, Inl e), []), w1)
      | (Inr incomingTmpPath, w1) \<Rightarrow>
          (case newHg ext conf w1 of
             (Inl e, w2) \<Rightarrow>
               (((emptyHgInfo, Inl (Wrapped ''Setting up hg'' e)),
                 [DeferRemoveAll incomingTmpPath]), w2)
           | (Inr t, w2) \<Rightarrow>
               (let ds = [DeferClose t, DeferRemoveAll incomingTmpPath] in
                case hg_populate ext t incomingTmpPath w2 of
                  (Some e, w3) \<Rightarrow> (((emptyHgInfo, Inl e), ds), w3)
                | (None, w3) \<Rightarrow>
                    (case checkout ext t incomingTmpPath w3 of
                       (Inl e, w4) \<Rightarrow>
                         (((emptyHgInfo, Inl (Wrapped ''Checking out hg repository'' e)), ds),
                          w4)
                     | (Inr info, w4) \<Rightarrow>
                         (((\<lparr>SHA = SHA info,
                             ChangeSetTitle = singleLineChangeSetTitle (ChangeSetTitle info)\<rparr>,
                            Inr incomingTmpPath), ds), w4)))))"

fun hg_runDeferred :: "outside \<Rightarrow> deferred list \<Rightarrow> world \<Rightarrow> world" where
  "hg_runDeferred ext [] w = w"
| "hg_runDeferred ext (DeferRemoveAll p # ds) w = hg_runDeferred ext ds (snd (RemoveAll ext p w))"
| "hg_runDeferred ext (DeferClose t # ds) w = hg_runDeferred ext ds (snd (Close ext t w))"

definition hg_Sync ::
  "outside \<Rightarrow> DirectoryContentsHg \<Rightarrow> path \<Rightarrow> world \<Rightarrow> (hgInfo \<times> error option) \<times> world" where
  "hg_Sync ext conf dstPath w =
     (case hg_stage ext conf w of
        (((hgLockConf, Inl e), ds), w1) \<Rightarrow> ((hgLockConf, Some e), hg_runDeferred ext ds w1)
      | (((hgLockConf, Inr incomingTmpPath), ds), w1) \<Rightarrow>
          (case replaceDir ext incomingTmpPath dstPath w1 of
             (r, w2) \<Rightarrow> ((hgLockConf, r), hg_runDeferred ext ds w2)))"

section \<open>Observations on worlds\<close>

text \<open>Two worlds with the same log of commands and the same log of cache calls.\<close>

definition sameLogs :: "world \<Rightarrow> world \<Rightarrow> bool" where
  "sameLogs w w' = (cmds w' = cmds w \<and> cacheOps w' = cacheOps w)"



section \<open>Example runs\<close>

text \<open>
  A destination that holds an earlier sync, and surroundings in which every operation
  succeeds: there is no secret and no cache, and each command leaves the same working
  directory. The other surroundings differ from it in one point each.
\<close>

definition oldTree :: tree where
  "oldTree = [(''old.txt'', (''old'', 420))]"

definition newTree :: tree where
  "newTree = [(''file1.txt'', (''content1'', 420))]"

definition startWorld :: world where
  "startWorld = \<lparr>dirs = (\<lambda>p. None)(''/dst'' \<mapsto> oldTree), cmds = [], cacheOps = []\<rparr>"

definition okOutside :: outside where
  "okOutside = \<lparr>
     environ = [],
     newTempDir = (\<lambda>pre w. Inr (''/tmp/'' @ pre)),
     writeFile_err = (\<lambda>d n w. None),
     removeAll_err = (\<lambda>p w. None),
     rename_err = (\<lambda>old new w. None),
     exec = (\<lambda>c w.
       (Inr (if cmd_args c = [''rev-parse'', ''HEAD'']
                \<or> take 3 (cmd_args c) = [''log'', ''-r'', ''.'']
               then ''0a1b2c''
             else if take 1 (cmd_args c) = [''log'']
               then ''Fix bug\<newline>\<newline>Details here\<newline>''
             else [], []), Some newTree)),
     getSecret = (\<lambda>name. Inr []),
     cacheHas = (\<lambda>ty ident w. None),
     cacheCopyFrom = (\<lambda>ty ident dst w. (None, Some newTree)),
     cacheSave = (\<lambda>ty ident src w. None),
     noCache = True,
     highestConstrainedVersion = (\<lambda>tags sel. Inl ''no match''),
     verify = (\<lambda>v d ref w. (None, dirs w d)),
     base64 = (\<lambda>s. s),
     urlWithUserinfo = (\<lambda>u name pass. Inr u),
     urlHost = (\<lambda>u. Inr ''example.com'')\<rparr>"

definition gitConf :: DirectoryContentsGit where
  "gitConf = \<lparr>URL = ''https://example.com/repo.git'', Ref = ''origin/main'', SecretRef = None,
     RefSelection = None, Verification = None, LFSSkipSmudge = False,
     DangerousSkipTLSVerify = False, SkipInitSubmodules = True, Depth = 0,
     ForceHTTPBasicAuth = False, SparseCheckout = False\<rparr>"

definition hgConf :: DirectoryContentsHg where
  "hgConf = \<lparr>URL = ''https://example.com/repo'', Ref = ''0a1b2c'', SecretRef = None,
     Evolve = False\<rparr>"

definition noPaths :: ContentPaths where
  "noPaths = \<lparr>IncludePaths = [], ExcludePaths = []\<rparr>"

text \<open>A secret with a field that is not recognized.\<close>

definition strangeSecret :: outside where
  "strangeSecret =
     okOutside\<lparr>getSecret := (\<lambda>name. Inr [(''username'', ''alice''), (''token'', ''t0ken'')])\<rparr>"

text \<open>The command \<^verbatim>\<open>describe --tags\<close> fails, every other command succeeds.\<close>

definition describeFails :: outside where
  "describeFails =
     okOutside\<lparr>exec := (\<lambda>c w.
        if take 1 (cmd_args c) = [''describe'']
        then (Inl (''exit status 128'', ''fatal: No names found''), dirs w (cmd_dir c))
        else exec okOutside c w)\<rparr>"


text \<open>A secret with a username and a password, and sources with a remote that is not https.\<close>

definition userPass :: outside where
  "userPass =
     okOutside\<lparr>getSecret := (\<lambda>name. Inr [(''username'', ''alice''), (''password'', ''s3cret'')])\<rparr>"

definition sshGitConf :: DirectoryContentsGit where
  "sshGitConf = gitConf\<lparr>URL := ''ssh://git@example.com/repo.git'', SecretRef := Some ''creds''\<rparr>"

definition sshHgConf :: DirectoryContentsHg where
  "sshHgConf = hgConf\<lparr>URL := ''ssh://hg@example.com/repo'', SecretRef := Some ''creds''\<rparr>"

text \<open>A secret with a private key that does not end in a newline.\<close>

definition keySecret :: outside where
  "keySecret = okOutside\<lparr>getSecret := (\<lambda>name. Inr [(''ssh-privatekey'', ''KEY'')])\<rparr>"

text \<open>
  A cache with an entry for every id; the cached clone reports a revision other than the
  ref of the source, or the revision that is the ref.
\<close>

definition staleCache :: outside where
  "staleCache = okOutside\<lparr>
     cacheHas := (\<lambda>ty ident w. Some ''/cache/hg''),
     noCache := False,
     exec := (\<lambda>c w.
        if take 1 (cmd_args c) = [''id'']
        then (Inr (''ffffff\<newline>'', []), dirs w (cmd_dir c))
        else exec okOutside c w)\<rparr>"

definition freshCache :: outside where
  "freshCache = okOutside\<lparr>
     cacheHas := (\<lambda>ty ident w. Some ''/cache/hg''),
     noCache := False,
     exec := (\<lambda>c w.
        if take 1 (cmd_args c) = [''id'']
        then (Inr (''0a1b2c\<newline>'', []), dirs w (cmd_dir c))
        else exec okOutside c w)\<rparr>"


section \<open>Properties of the summaries\<close>

lemmas prims = NewTempDir_def WriteFile_def RemoveAll_def Rename_def Run_def cache_Has_def
  cache_CopyFrom_def cache_Save_def Join_def replaceDir_def noAuthOpts_def IsPresent_def
  HasPrefix_def stageKnownHosts_def sshBase_def

lemmas secret_names = SecretK8sCoreV1SSHAuthPrivateKey_def SecretSSHAuthKnownHosts_def
  SecretK8sCorev1BasicAuthUsernameKey_def SecretK8sCorev1BasicAuthPasswordKey_def

lemmas git_defs = git_Sync_def git_stage_def git_Retrieve_def git_fetch_def git_fetchBody_def
  git_checkout_def git_resolveRef_def git_verify_def git_stageSSH_def git_basicAuth_def
  git_envFlags_def git_initArgs_def git_lastArgs_def git_fetchArgs_def git_getAuthOpts_def
  git_cacheBundle_def git_saveBundle_def git_stagePrivateKey_def

lemmas hg_defs = hg_Sync_def hg_stage_def newHg_def hg_setup_def hg_getAuthOpts_def
  hg_basicAuth_def hg_stageSSH_def hg_stagePrivateKey_def hg_writeRc_def
  hg_populate_def hg_fromCache_def hg_fresh_def clone_def initClone_def syncClone_def
  cloneHasTargetRef_def checkout_def hg_run_def Close_def getCacheID_def

lemma git_stage_lock:
  "git_stage ext conf cp w = (((lock, Inr p), ds), w') \<Longrightarrow>
     \<exists>info bundle w1 w2. git_Retrieve ext conf cp p bundle w1 = (Inr info, w2)
        \<and> SHA lock = SHA info \<and> Tags lock = Tags info
        \<and> CommitTitle lock = singleLineCommitTitle (CommitTitle info)"
  unfolding git_stage_def Let_def
  by (fastforce split: prod.splits sum.splits option.splits)

lemma hg_stage_lock:
  "hg_stage ext conf w = (((lock, Inr p), ds), w') \<Longrightarrow>
     \<exists>t info w1 w2. checkout ext t p w1 = (Inr info, w2)
        \<and> SHA lock = SHA info
        \<and> ChangeSetTitle lock = singleLineChangeSetTitle (ChangeSetTitle info)"
  unfolding hg_stage_def Let_def
  by (fastforce split: prod.splits sum.splits option.splits)

lemma git_Sync_lock:
  assumes "git_Sync ext conf cp dst w = ((lock, None), w')"
  shows "\<exists>info p b w1 w2. git_Retrieve ext conf cp p b w1 = (Inr info, w2)
           \<and> CommitTitle lock = singleLineCommitTitle (CommitTitle info)"
proof -
  obtain lock1 r1 ds w1 where s: "git_stage ext conf cp w = (((lock1, r1), ds), w1)"
    by (metis surj_pair)
  with assms obtain p where "r1 = Inr p" "lock1 = lock"
    by (cases r1) (auto simp: git_Sync_def split: prod.splits)
  with s git_stage_lock [of ext conf cp w lock p ds w1] show ?thesis by blast
qed

lemma hg_Sync_lock:
  assumes "hg_Sync ext conf dst w = ((lock, None), w')"
  shows "\<exists>t info p w1 w2. checkout ext t p w1 = (Inr info, w2)
           \<and> ChangeSetTitle lock = singleLineChangeSetTitle (ChangeSetTitle info)"
proof -
  obtain lock1 r1 ds w1 where s: "hg_stage ext conf w = (((lock1, r1), ds), w1)"
    by (metis surj_pair)
  with assms obtain p where "r1 = Inr p" "lock1 = lock"
    by (cases r1) (auto simp: hg_Sync_def split: prod.splits)
  with s hg_stage_lock [of ext conf w lock p ds w1] show ?thesis by blast
qed

text \<open>
  C8. In both backends the summary is the first line of the message: a message with a
  newline gives the text before the first newline followed by three dots, a message
  without one is kept as it is, and the message "Fix bug", empty line, "Details here" gives
  "Fix bug...". The summary in the lock record of a successful sync is this function of
  the title that \<open>Retrieve\<close> (git) or \<open>checkout\<close> (hg) returned.
\<close>

theorem summary_first_line:
  "(nl \<in> set msg \<longrightarrow>
      singleLineCommitTitle msg = takeWhile (\<lambda>c. c \<noteq> nl) msg @ ''...''
    \<and> singleLineChangeSetTitle msg = takeWhile (\<lambda>c. c \<noteq> nl) msg @ ''...'')
 \<and> (nl \<notin> set msg \<longrightarrow> singleLineCommitTitle msg = msg \<and> singleLineChangeSetTitle msg = msg)
 \<and> singleLineCommitTitle ''Fix bug\<newline>\<newline>Details here'' = ''Fix bug...''
 \<and> singleLineChangeSetTitle ''Fix bug\<newline>\<newline>Details here'' = ''Fix bug...''
 \<and> (git_Sync ext gconf cp dst w = ((glock, None), gw) \<longrightarrow>
       (\<exists>info p b w1 w2. git_Retrieve ext gconf cp p b w1 = (Inr info, w2)
           \<and> CommitTitle glock = singleLineCommitTitle (CommitTitle info)))
 \<and> (hg_Sync ext hconf dst w = ((hlock, None), hw) \<longrightarrow>
       (\<exists>t info p w1 w2. checkout ext t p w1 = (Inr info, w2)
           \<and> ChangeSetTitle hlock = singleLineChangeSetTitle (ChangeSetTitle info)))"
proof -
  have "(nl \<in> set msg \<longrightarrow>
      singleLineCommitTitle msg = takeWhile (\<lambda>c. c \<noteq> nl) msg @ ''...''
    \<and> singleLineChangeSetTitle msg = takeWhile (\<lambda>c. c \<noteq> nl) msg @ ''...'')
   \<and> (nl \<notin> set msg \<longrightarrow> singleLineCommitTitle msg = msg \<and> singleLineChangeSetTitle msg = msg)
   \<and> singleLineCommitTitle ''Fix bug\<newline>\<newline>Details here'' = ''Fix bug...''
   \<and> singleLineChangeSetTitle ''Fix bug\<newline>\<newline>Details here'' = ''Fix bug...''"
    by (simp add: singleLineCommitTitle_def singleLineChangeSetTitle_def SplitN2_def nl_def)
  with git_Sync_lock [of ext gconf cp dst w glock gw] hg_Sync_lock [of ext hconf dst w hlock hw]
  show ?thesis by blast
qed

theorem summary_first_line_witness:
  "nl \<in> set ''one\<newline>two'' \<and> singleLineCommitTitle ''one\<newline>two'' = ''one...''
   \<and> singleLineChangeSetTitle ''one\<newline>two'' = ''one...''
   \<and> nl \<notin> set ''one'' \<and> singleLineCommitTitle ''one'' = ''one''
   \<and> singleLineChangeSetTitle ''one'' = ''one''
   \<and> fst (git_Sync okOutside gitConf noPaths ''/dst'' startWorld)
        = (\<lparr>SHA = ''0a1b2c'', Tags = [[]], CommitTitle = ''Fix bug...''\<rparr>, None)
   \<and> (\<exists>info p b w1 w2. git_Retrieve okOutside gitConf noPaths p b w1 = (Inr info, w2)
           \<and> ''Fix bug...'' = singleLineCommitTitle (CommitTitle info))
   \<and> fst (hg_Sync okOutside hgConf ''/dst'' startWorld)
        = (\<lparr>SHA = ''0a1b2c'', ChangeSetTitle = ''Fix bug...''\<rparr>, None)
   \<and> (\<exists>t info p w1 w2. checkout okOutside t p w1 = (Inr info, w2)
           \<and> ''Fix bug...'' = singleLineChangeSetTitle (ChangeSetTitle info))"
proof -
  let ?gl = "\<lparr>SHA = ''0a1b2c'', Tags = [[]], CommitTitle = ''Fix bug...''\<rparr>"
  let ?hl = "\<lparr>SHA = ''0a1b2c'', ChangeSetTitle = ''Fix bug...''\<rparr>"
  have g: "fst (git_Sync okOutside gitConf noPaths ''/dst'' startWorld) = (?gl, None)"
    by (simp add: prims git_defs okOutside_def gitConf_def noPaths_def startWorld_def Let_def
        TrimSpace_def isSpace_def Split_def nl_def singleLineCommitTitle_def SplitN2_def)
  then obtain gw where g1: "git_Sync okOutside gitConf noPaths ''/dst'' startWorld = ((?gl, None), gw)"
    by (metis prod.collapse)
  have h: "fst (hg_Sync okOutside hgConf ''/dst'' startWorld) = (?hl, None)"
    by (simp add: prims hg_defs okOutside_def hgConf_def startWorld_def Let_def
        TrimSpace_def isSpace_def nl_def singleLineChangeSetTitle_def SplitN2_def)
  then obtain hw where h1: "hg_Sync okOutside hgConf ''/dst'' startWorld = ((?hl, None), hw)"
    by (metis prod.collapse)
  note t1 = summary_first_line [of "''one\<newline>two''" okOutside gitConf noPaths "''/dst''"
      startWorld ?gl gw hgConf ?hl hw]
  note t2 = summary_first_line [of "''one''" okOutside gitConf noPaths "''/dst''"
      startWorld ?gl gw hgConf ?hl hw]
  have n: "nl \<in> set ''one\<newline>two''" "nl \<notin> set ''one''" by (simp_all add: nl_def)
  from t1 n(1) have a: "singleLineCommitTitle ''one\<newline>two'' = ''one...''
      \<and> singleLineChangeSetTitle ''one\<newline>two'' = ''one...''"
    by (simp add: nl_def)
  from t2 n(2) have b: "singleLineCommitTitle ''one'' = ''one'' \<and> singleLineChangeSetTitle ''one'' = ''one''"
    by blast
  from t1 g1 have c: "\<exists>info p b w1 w2. git_Retrieve okOutside gitConf noPaths p b w1 = (Inr info, w2)
           \<and> ''Fix bug...'' = singleLineCommitTitle (CommitTitle info)"
    by simp
  from t1 h1 have d: "\<exists>t info p w1 w2. checkout okOutside t p w1 = (Inr info, w2)
           \<and> ''Fix bug...'' = singleLineChangeSetTitle (ChangeSetTitle info)"
    by simp
  from n a b c d g h show ?thesis by blast
qed

section \<open>Secrets\<close>

lemma authFields_step_unknown:
  "\<not> recognizedField n \<Longrightarrow> authFields sn ((n, v) # rest) a = Inl (UnknownSecretField n sn)"
  by (simp add: recognizedField_def)

lemma authFields_step_known:
  "recognizedField n \<Longrightarrow> \<exists>a'. authFields sn ((n, v) # rest) a = authFields sn rest a'"
  by (auto simp: recognizedField_def)

lemma authFields_ok:
  "authFields sn secretData a = Inr a' \<Longrightarrow> \<forall>(n, v) \<in> set secretData. recognizedField n"
proof (induction secretData arbitrary: a)
  case Nil
  then show ?case by simp
next
  case (Cons x xs)
  obtain n v where x: "x = (n, v)" by (cases x)
  show ?case
  proof (cases "recognizedField n")
    case True
    then obtain a1 where "authFields sn ((n, v) # xs) a = authFields sn xs a1"
      using authFields_step_known by blast
    with Cons x True show ?thesis by auto
  next
    case False
    with Cons.prems x show ?thesis
      by (simp add: authFields_step_unknown del: authFields.simps)
  qed
qed

lemma authFields_all_known:
  "\<forall>(n, v) \<in> set secretData. recognizedField n \<Longrightarrow> \<exists>a'. authFields sn secretData a = Inr a'"
proof (induction secretData arbitrary: a)
  case Nil
  then show ?case by simp
next
  case (Cons x xs)
  obtain n v where x: "x = (n, v)" by (cases x)
  with Cons.prems have "recognizedField n" by simp
  then obtain a1 where "authFields sn ((n, v) # xs) a = authFields sn xs a1"
    using authFields_step_known by blast
  moreover from Cons.prems have "\<forall>(n, v) \<in> set xs. recognizedField n" by simp
  ultimately show ?case using Cons.IH [of a1] x by simp
qed

lemma authFields_unknown:
  "\<exists>(n, v) \<in> set secretData. \<not> recognizedField n \<Longrightarrow>
   \<exists>(n, v) \<in> set secretData. \<not> recognizedField n
      \<and> authFields sn secretData a = Inl (UnknownSecretField n sn)"
proof (induction secretData arbitrary: a)
  case Nil
  then show ?case by simp
next
  case (Cons x xs)
  obtain n v where x: "x = (n, v)" by (cases x)
  show ?case
  proof (cases "recognizedField n")
    case True
    then obtain a1 where s: "authFields sn ((n, v) # xs) a = authFields sn xs a1"
      using authFields_step_known by blast
    from Cons.prems x True have "\<exists>(n, v) \<in> set xs. \<not> recognizedField n" by auto
    from Cons.IH [OF this, of a1] s x show ?thesis by auto
  next
    case False
    with x show ?thesis by (auto simp: authFields_step_unknown simp del: authFields.simps)
  qed
qed

text \<open>
  C9. For a source of either backend that names a secret, and the fields the secret
  fetcher returns for it: deriving the auth options succeeds exactly when every field name
  is one of the four recognized names; when some name is not recognized, both backends
  fail with the error that carries an unrecognized field name of the secret and the name of
  the secret.
\<close>

theorem secret_fields_recognized:
  assumes "SecretRef gconf = Some name" and "SecretRef hconf = Some name"
      and "getSecret ext name = Inr secretData"
  shows "((\<exists>a. git_getAuthOpts ext gconf = Inr a) = (\<forall>(n, v) \<in> set secretData. recognizedField n))
       \<and> ((\<exists>a. hg_getAuthOpts ext hconf = Inr a) = (\<forall>(n, v) \<in> set secretData. recognizedField n))
       \<and> ((\<exists>(n, v) \<in> set secretData. \<not> recognizedField n) \<longrightarrow>
            (\<exists>(n, v) \<in> set secretData. \<not> recognizedField n
               \<and> git_getAuthOpts ext gconf = Inl (UnknownSecretField n name)
               \<and> hg_getAuthOpts ext hconf = Inl (UnknownSecretField n name)))"
proof -
  have g: "git_getAuthOpts ext gconf = authFields name secretData noAuthOpts"
    using assms by (simp add: git_getAuthOpts_def)
  have h: "hg_getAuthOpts ext hconf = authFields name secretData noAuthOpts"
    using assms by (simp add: hg_getAuthOpts_def)
  have iff: "(\<exists>a. authFields name secretData noAuthOpts = Inr a)
               = (\<forall>(n, v) \<in> set secretData. recognizedField n)"
    using authFields_ok [of name secretData noAuthOpts]
      authFields_all_known [of secretData name noAuthOpts] by blast
  have bad: "(\<exists>(n, v) \<in> set secretData. \<not> recognizedField n) \<longrightarrow>
      (\<exists>(n, v) \<in> set secretData. \<not> recognizedField n
          \<and> authFields name secretData noAuthOpts = Inl (UnknownSecretField n name))"
    using authFields_unknown [of secretData name noAuthOpts] by blast
  show ?thesis
    unfolding g h using iff bad by (simp add: case_prod_beta)
qed

theorem secret_fields_recognized_witness:
  "\<not> recognizedField ''token''
   \<and> git_getAuthOpts strangeSecret (gitConf\<lparr>SecretRef := Some ''creds''\<rparr>)
       = Inl (UnknownSecretField ''token'' ''creds'')
   \<and> hg_getAuthOpts strangeSecret (hgConf\<lparr>SecretRef := Some ''creds''\<rparr>)
       = Inl (UnknownSecretField ''token'' ''creds'')"
  using secret_fields_recognized [of "gitConf\<lparr>SecretRef := Some ''creds''\<rparr>" "''creds''"
      "hgConf\<lparr>SecretRef := Some ''creds''\<rparr>" strangeSecret
      "[(''username'', ''alice''), (''token'', ''t0ken'')]"]
  by (simp add: strangeSecret_def okOutside_def recognizedField_def
      SecretK8sCoreV1SSHAuthPrivateKey_def SecretSSHAuthKnownHosts_def
      SecretK8sCorev1BasicAuthUsernameKey_def SecretK8sCorev1BasicAuthPasswordKey_def)

section \<open>Ref resolution and metadata of the git backend\<close>



text \<open>
  C10. After a successful fetch and checkout and a successful \<^verbatim>\<open>rev-parse\<close>, a failing
  \<^verbatim>\<open>describe --tags\<close> does not fail \<open>Retrieve\<close>: when the \<^verbatim>\<open>log\<close> command that follows
  succeeds, the result is the revision id, no tags, and the commit title.
\<close>

theorem retrieve_describe_fails:
  assumes "URL conf \<noteq> []"
      and "git_fetch ext conf cp d bundle w = (None, w1)"
      and "Run ext ''git'' [''rev-parse'', ''HEAD''] None d w1 = (Inr (out1, err1), w2)"
      and "Run ext ''git'' [''describe'', ''--tags'', TrimSpace out1] None d w2 = (Inl e, w3)"
      and "Run ext ''git'' [''log'', ''-n'', ''1'', ''--pretty=%B'', TrimSpace out1] None d w3
             = (Inr (out3, err3), w4)"
  shows "git_Retrieve ext conf cp d bundle w
           = (Inr \<lparr>SHA = TrimSpace out1, Tags = [], CommitTitle = TrimSpace out3\<rparr>, w4)"
  using assms by (simp add: git_Retrieve_def Let_def)

theorem retrieve_describe_fails_witness:
  "fst (git_Retrieve describeFails gitConf noPaths ''/tmp/git'' [] startWorld)
     = Inr \<lparr>SHA = ''0a1b2c'', Tags = [], CommitTitle = ''Fix bug\<newline>\<newline>Details here''\<rparr>"
proof -
  let ?w1 = "snd (git_fetch describeFails gitConf noPaths ''/tmp/git'' [] startWorld)"
  let ?w2 = "snd (Run describeFails ''git'' [''rev-parse'', ''HEAD''] None ''/tmp/git'' ?w1)"
  let ?w3 = "snd (Run describeFails ''git'' [''describe'', ''--tags'', ''0a1b2c''] None
                    ''/tmp/git'' ?w2)"
  let ?w4 = "snd (Run describeFails ''git'' [''log'', ''-n'', ''1'', ''--pretty=%B'', ''0a1b2c'']
                    None ''/tmp/git'' ?w3)"
  have t: "TrimSpace ''0a1b2c'' = ''0a1b2c''"
    by (simp add: TrimSpace_def isSpace_def)
  have u: "URL gitConf \<noteq> []"
    by (simp add: gitConf_def)
  have f: "git_fetch describeFails gitConf noPaths ''/tmp/git'' [] startWorld = (None, ?w1)"
    by (simp add: prims git_defs describeFails_def okOutside_def gitConf_def noPaths_def Let_def)
  have r1: "Run describeFails ''git'' [''rev-parse'', ''HEAD''] None ''/tmp/git'' ?w1
              = (Inr (''0a1b2c'', []), ?w2)"
    by (simp add: Run_def describeFails_def okOutside_def Let_def)
  have r2: "Run describeFails ''git'' [''describe'', ''--tags'', TrimSpace ''0a1b2c''] None
              ''/tmp/git'' ?w2
              = (Inl (CommandFailed ''git'' [''describe'', ''--tags'', ''0a1b2c'']
                        ''exit status 128'' ''fatal: No names found''), ?w3)"
    by (simp add: t) (simp add: Run_def describeFails_def okOutside_def Let_def)
  have r3: "Run describeFails ''git'' [''log'', ''-n'', ''1'', ''--pretty=%B'', TrimSpace ''0a1b2c'']
              None ''/tmp/git'' ?w3
              = (Inr (''Fix bug\<newline>\<newline>Details here\<newline>'', []), ?w4)"
    by (simp add: t) (simp add: Run_def describeFails_def okOutside_def Let_def)
  from retrieve_describe_fails [OF u f r1 r2 r3] show ?thesis
    by (simp add: TrimSpace_def isSpace_def)
qed

section \<open>The cache id\<close>

text \<open>The digest of "abc", the first example of the standard.\<close>

lemma Sum256_abc:
  "EncodeToString (Sum256 ''abc'')
     = ''ba7816bf8f01cfea414140de5dae2223b00361a396177a9cb410ff61f20015ad''"
  by code_simp
















lemma hg_writeRc_fields:
  "hg_writeRc ext t hgRc w = ((r, t'), w') \<Longrightarrow> opts t' = opts t \<and> authDir t' = authDir t"
  by (auto simp: hg_writeRc_def split: if_splits prod.splits option.splits)

lemma hg_setup_cacheID:
  "hg_setup ext t w = ((None, t'), w') \<Longrightarrow>
     cacheID t' = EncodeToString (Sum256 (URL (opts t))) \<and> opts t' = opts t"
  unfolding hg_setup_def Let_def
  by (auto split: if_splits sum.splits prod.splits option.splits dest!: hg_writeRc_fields)

lemma newHg_cacheID:
  "newHg ext conf w = (Inr t, w') \<Longrightarrow>
     getCacheID t = EncodeToString (Sum256 (URL conf)) \<and> opts t = conf"
  unfolding newHg_def getCacheID_def
  by (auto split: prod.splits option.splits dest!: hg_setup_cacheID)




section \<open>Username and password need an https remote\<close>

lemma NewTempDir_cmds: "NewTempDir ext pre w = (r, w') \<Longrightarrow> cmds w' = cmds w"
  by (auto simp: NewTempDir_def split: sum.splits)

lemma RemoveAll_cmds: "cmds (snd (RemoveAll ext p w)) = cmds w"
  by (auto simp: RemoveAll_def split: option.splits)

lemma Rename_cmds: "cmds (snd (Rename ext old new w)) = cmds w"
  by (auto simp: Rename_def split: option.splits list.splits)

lemma cache_Has_cmds: "cache_Has ext ty i w = (r, w') \<Longrightarrow> cmds w' = cmds w"
  by (auto simp: cache_Has_def)

lemma replaceDir_cmds: "cmds (snd (replaceDir ext p dst w)) = cmds w"
  using RemoveAll_cmds [of ext dst w] Rename_cmds [of ext p dst "snd (RemoveAll ext dst w)"]
  by (auto simp: replaceDir_def split: prod.splits option.splits)

lemma git_runDeferred_cmds: "cmds (git_runDeferred ext ds w) = cmds w"
  by (induction ds arbitrary: w) (simp_all add: RemoveAll_cmds)

lemma Close_cmds: "cmds (snd (Close ext t w)) = cmds w"
  by (simp add: Close_def RemoveAll_cmds)

lemma hg_runDeferred_cmds: "cmds (hg_runDeferred ext ds w) = cmds w"
  by (induction ext ds w rule: hg_runDeferred.induct) (simp_all add: RemoveAll_cmds Close_cmds)

text \<open>Staging the ssh material runs no command, and fails only with a write error.\<close>

lemma NewTempDir_result:
  "NewTempDir ext pre w = (r, w') \<Longrightarrow>
     (\<forall>e. r = Inl e \<longrightarrow> (\<exists>m. e = External m \<and> newTempDir ext pre w = Inl m))
   \<and> (\<forall>p. r = Inr p \<longrightarrow> dirs w' p \<noteq> None)"
  by (auto simp: NewTempDir_def split: sum.splits)

lemma WriteFile_facts:
  "WriteFile ext d n data perm w = (r, w') \<Longrightarrow>
     cmds w' = cmds w \<and> (dirs w d \<noteq> None \<longrightarrow> dirs w' d \<noteq> None)
   \<and> (\<forall>m. r = Some m \<longrightarrow> dirs w d \<noteq> None \<longrightarrow> writeFile_err ext d n w \<noteq> None)"
  by (auto simp: WriteFile_def Let_def split: option.splits)

lemma git_stagePrivateKey_cmds:
  "git_stagePrivateKey ext a d w = (r, w') \<Longrightarrow>
     cmds w' = cmds w \<and> (dirs w d \<noteq> None \<longrightarrow> dirs w' d \<noteq> None)
   \<and> (\<forall>e. r = Inl e \<longrightarrow> (\<exists>m. e = WritingPrivateKey m)
          \<and> (dirs w d \<noteq> None \<longrightarrow> (\<exists>n w0. writeFile_err ext d n w0 \<noteq> None)))"
  unfolding git_stagePrivateKey_def
  by (fastforce split: prod.splits option.splits dest!: WriteFile_facts)

lemma stageKnownHosts_cmds:
  "stageKnownHosts ext a d sshCmd w = (r, w') \<Longrightarrow>
     cmds w' = cmds w \<and> (dirs w d \<noteq> None \<longrightarrow> dirs w' d \<noteq> None)
   \<and> (\<forall>e. r = Inl e \<longrightarrow> (\<exists>m. e = WritingKnownHosts m)
          \<and> (dirs w d \<noteq> None \<longrightarrow> (\<exists>n w0. writeFile_err ext d n w0 \<noteq> None)))"
  unfolding stageKnownHosts_def
  by (fastforce split: prod.splits option.splits dest!: WriteFile_facts)

lemma git_stageSSH_cmds:
  "git_stageSSH ext a d vars w = (r, w') \<Longrightarrow>
     cmds w' = cmds w
   \<and> (\<forall>e. r = Inl e \<longrightarrow> (\<exists>m. e = WritingPrivateKey m \<or> e = WritingKnownHosts m)
          \<and> (dirs w d \<noteq> None \<longrightarrow> (\<exists>n w0. writeFile_err ext d n w0 \<noteq> None)))"
  unfolding git_stageSSH_def
  by (auto split: if_splits prod.splits sum.splits
      dest!: git_stagePrivateKey_cmds stageKnownHosts_cmds)

lemma git_basicAuth_userpass:
  "Username a \<noteq> None \<Longrightarrow> Password a \<noteq> None \<Longrightarrow> \<not> HasPrefix (URL conf) ''https://'' \<Longrightarrow>
     git_basicAuth ext conf a d w = (Inl UserPassOnlyHTTPS, w)"
  by (auto simp: git_basicAuth_def)

lemma git_fetchBody_userpass:
  assumes "Username a \<noteq> None" "Password a \<noteq> None" "\<not> HasPrefix (URL conf) ''https://''"
    and "git_fetchBody ext conf cp a d dst bundle w = (r, w')"
  shows "cmds w' = cmds w \<and>
     (r = Some UserPassOnlyHTTPS
      \<or> (\<exists>m. r = Some (WritingPrivateKey m) \<or> r = Some (WritingKnownHosts m))
         \<and> (dirs w d \<noteq> None \<longrightarrow> (\<exists>n w0. writeFile_err ext d n w0 \<noteq> None)))"
  using assms(4) git_basicAuth_userpass [OF assms(1-3)]
  by (auto simp: git_fetchBody_def Let_def split: prod.splits sum.splits dest!: git_stageSSH_cmds)

lemma git_fetch_userpass:
  assumes "git_getAuthOpts ext conf = Inr a"
    and "Username a \<noteq> None" "Password a \<noteq> None" "\<not> HasPrefix (URL conf) ''https://''"
    and "git_fetch ext conf cp dst bundle w = (r, w')"
  shows "cmds w' = cmds w \<and>
     (r = Some UserPassOnlyHTTPS
      \<or> (\<exists>e. r = Some e)
         \<and> ((\<exists>pre w0 m. newTempDir ext pre w0 = Inl m)
              \<or> (\<exists>d n w0. writeFile_err ext d n w0 \<noteq> None)))"
proof (cases "NewTempDir ext ''git-auth'' w")
  case (Pair x w1)
  note c1 = NewTempDir_cmds [OF Pair]
  note r1 = NewTempDir_result [OF Pair]
  show ?thesis
  proof (cases x)
    case (Inl e)
    with r1 Pair assms(1,5) c1 show ?thesis by (auto simp: git_fetch_def)
  next
    case (Inr d)
    obtain r2 w2 where b: "git_fetchBody ext conf cp a d dst bundle w1 = (r2, w2)"
      by (cases "git_fetchBody ext conf cp a d dst bundle w1")
    from r1 Inr have "dirs w1 d \<noteq> None" by simp
    with git_fetchBody_userpass [OF assms(2-4) b] Inr Pair assms(1,5) c1 b
    show ?thesis by (auto simp: git_fetch_def RemoveAll_cmds)
  qed
qed

lemma git_Retrieve_userpass:
  assumes "git_getAuthOpts ext conf = Inr a"
    and "Username a \<noteq> None" "Password a \<noteq> None" "\<not> HasPrefix (URL conf) ''https://''"
    and "git_Retrieve ext conf cp dst bundle w = (r, w')"
  shows "cmds w' = cmds w \<and>
     (r = Inl (if URL conf = [] then ExpectedNonEmptyURL else UserPassOnlyHTTPS)
      \<or> (\<exists>e. r = Inl e)
         \<and> ((\<exists>pre w0 m. newTempDir ext pre w0 = Inl m)
              \<or> (\<exists>d n w0. writeFile_err ext d n w0 \<noteq> None)))"
proof (cases "URL conf = []")
  case True
  with assms(5) show ?thesis by (simp add: git_Retrieve_def)
next
  case False
  obtain r1 w1 where f: "git_fetch ext conf cp dst bundle w = (r1, w1)"
    by (cases "git_fetch ext conf cp dst bundle w")
  from git_fetch_userpass [OF assms(1-4) f] f assms(5) False
  show ?thesis by (auto simp: git_Retrieve_def)
qed

lemma git_stage_userpass:
  assumes "git_getAuthOpts ext conf = Inr a"
    and "Username a \<noteq> None" "Password a \<noteq> None" "\<not> HasPrefix (URL conf) ''https://''"
    and "git_stage ext conf cp w = (((lock, r), ds), w')"
  shows "cmds w' = cmds w \<and>
     (r = Inl (Wrapped ''Fetching git repository''
                 (if URL conf = [] then ExpectedNonEmptyURL else UserPassOnlyHTTPS))
      \<or> (\<exists>e. r = Inl e)
         \<and> ((\<exists>pre w0 m. newTempDir ext pre w0 = Inl m)
              \<or> (\<exists>d n w0. writeFile_err ext d n w0 \<noteq> None)))"
proof (cases "NewTempDir ext ''git'' w")
  case (Pair x w1)
  note c1 = NewTempDir_cmds [OF Pair]
  note r1 = NewTempDir_result [OF Pair]
  show ?thesis
  proof (cases x)
    case (Inl e)
    with r1 Pair assms(5) c1 show ?thesis by (auto simp: git_stage_def)
  next
    case (Inr p)
    obtain hc w2 where h: "cache_Has ext gitCacheType (git_cacheID conf) w1 = (hc, w2)"
      by (cases "cache_Has ext gitCacheType (git_cacheID conf) w1")
    let ?bdl = "case hc of None \<Rightarrow> [] | Some cacheEntry \<Rightarrow> Join cacheEntry ''bundle''"
    obtain r3 w3 where g: "git_Retrieve ext conf cp p ?bdl w2 = (r3, w3)"
      by (cases "git_Retrieve ext conf cp p ?bdl w2")
    from git_Retrieve_userpass [OF assms(1-4) g] g h Inr Pair assms(5) c1 cache_Has_cmds [OF h]
    show ?thesis by (auto simp: git_stage_def Let_def)
  qed
qed

lemma git_Sync_userpass:
  assumes "git_getAuthOpts ext conf = Inr a"
    and "Username a \<noteq> None" "Password a \<noteq> None" "\<not> HasPrefix (URL conf) ''https://''"
  shows "\<exists>lock e. fst (git_Sync ext conf cp dst w) = (lock, Some e)
      \<and> cmds (snd (git_Sync ext conf cp dst w)) = cmds w
      \<and> ((\<forall>pre w0 m. newTempDir ext pre w0 \<noteq> Inl m) \<and> (\<forall>d n w0. writeFile_err ext d n w0 = None)
           \<longrightarrow> e = Wrapped ''Fetching git repository''
                     (if URL conf = [] then ExpectedNonEmptyURL else UserPassOnlyHTTPS))"
proof -
  obtain lock r ds w1 where s: "git_stage ext conf cp w = (((lock, r), ds), w1)"
    by (metis surj_pair)
  from git_stage_userpass [OF assms s] s show ?thesis
    by (auto simp: git_Sync_def git_runDeferred_cmds)
qed

lemma hg_basicAuth_userpass:
  "Username a \<noteq> None \<Longrightarrow> Password a \<noteq> None \<Longrightarrow> \<not> HasPrefix (URL conf) ''https://'' \<Longrightarrow>
     hg_basicAuth ext conf a hgRc = Inl UserPassOnlyHTTPS"
  by (auto simp: hg_basicAuth_def)

lemma hg_setup_userpass:
  assumes "hg_getAuthOpts ext (opts t) = Inr a"
    and "Username a \<noteq> None" "Password a \<noteq> None" "\<not> HasPrefix (URL (opts t)) ''https://''"
    and "hg_setup ext t w = ((r, t'), w')"
  shows "cmds w' = cmds w \<and>
     (r = Some (if URL (opts t) = [] then ExpectedNonEmptyURL else UserPassOnlyHTTPS)
      \<or> (\<exists>e. r = Some e) \<and> (\<exists>pre w0 m. newTempDir ext pre w0 = Inl m))"
proof (cases "URL (opts t) = []")
  case True
  with assms(5) show ?thesis by (simp add: hg_setup_def)
next
  case False
  obtain x w1 where n: "NewTempDir ext ''hg-auth'' w = (x, w1)"
    by (cases "NewTempDir ext ''hg-auth'' w")
  note b = hg_basicAuth_userpass [OF assms(2-4)]
  from NewTempDir_cmds [OF n] NewTempDir_result [OF n] n assms(1,5) False b
  show ?thesis
    by (cases x) (auto simp: hg_setup_def Let_def)
qed

lemma hg_stage_userpass:
  assumes "hg_getAuthOpts ext conf = Inr a"
    and "Username a \<noteq> None" "Password a \<noteq> None" "\<not> HasPrefix (URL conf) ''https://''"
    and "hg_stage ext conf w = (((lock, r), ds), w')"
  shows "cmds w' = cmds w \<and>
     (r = Inl (Wrapped ''Setting up hg''
                 (if URL conf = [] then ExpectedNonEmptyURL else UserPassOnlyHTTPS))
      \<or> (\<exists>e. r = Inl e) \<and> (\<exists>pre w0 m. newTempDir ext pre w0 = Inl m))"
proof (cases "NewTempDir ext ''hg'' w")
  case (Pair x w1)
  note c1 = NewTempDir_cmds [OF Pair]
  note r1 = NewTempDir_result [OF Pair]
  show ?thesis
  proof (cases x)
    case (Inl e)
    with r1 Pair assms(5) c1 show ?thesis by (auto simp: hg_stage_def)
  next
    case (Inr p)
    let ?t = "\<lparr>opts = conf, authDir = [], env = None, cacheID = []\<rparr>"
    obtain r2 t2 w2 where s: "hg_setup ext ?t w1 = ((r2, t2), w2)"
      by (metis surj_pair)
    from hg_setup_userpass [of ext ?t a w1 r2 t2 w2] assms(1-4) s
    have "cmds w2 = cmds w1 \<and>
     (r2 = Some (if URL conf = [] then ExpectedNonEmptyURL else UserPassOnlyHTTPS)
      \<or> (\<exists>e. r2 = Some e) \<and> (\<exists>pre w0 m. newTempDir ext pre w0 = Inl m))"
      by simp
    with s Inr Pair assms(5) c1 show ?thesis
      by (auto simp: hg_stage_def newHg_def)
  qed
qed

lemma hg_Sync_userpass:
  assumes "hg_getAuthOpts ext conf = Inr a"
    and "Username a \<noteq> None" "Password a \<noteq> None" "\<not> HasPrefix (URL conf) ''https://''"
  shows "\<exists>lock e. fst (hg_Sync ext conf dst w) = (lock, Some e)
      \<and> cmds (snd (hg_Sync ext conf dst w)) = cmds w
      \<and> ((\<forall>pre w0 m. newTempDir ext pre w0 \<noteq> Inl m)
           \<longrightarrow> e = Wrapped ''Setting up hg''
                     (if URL conf = [] then ExpectedNonEmptyURL else UserPassOnlyHTTPS))"
proof -
  obtain lock r ds w1 where s: "hg_stage ext conf w = (((lock, r), ds), w1)"
    by (metis surj_pair)
  from hg_stage_userpass [OF assms s] s show ?thesis
    by (auto simp: hg_Sync_def hg_runDeferred_cmds)
qed

text \<open>
  C7. A source whose secret gives both a username and a password and whose URL does not
  start with "https://": in both backends the sync returns an error and runs no external
  command. When the temporary directories are made and the key files written, the error is
  the configuration error of this check (for an empty URL, the one of the empty URL),
  wrapped by \<open>Sync\<close>.
\<close>

theorem userpass_requires_https:
  assumes "git_getAuthOpts ext gconf = Inr ga"
      and "Username ga \<noteq> None" and "Password ga \<noteq> None"
      and "\<not> HasPrefix (URL gconf) ''https://''"
      and "hg_getAuthOpts ext hconf = Inr ha"
      and "Username ha \<noteq> None" and "Password ha \<noteq> None"
      and "\<not> HasPrefix (URL hconf) ''https://''"
  shows "(\<exists>lock e. fst (git_Sync ext gconf cp dst w) = (lock, Some e)
            \<and> cmds (snd (git_Sync ext gconf cp dst w)) = cmds w
            \<and> ((\<forall>pre w0 m. newTempDir ext pre w0 \<noteq> Inl m)
                  \<and> (\<forall>d n w0. writeFile_err ext d n w0 = None)
                \<longrightarrow> e = Wrapped ''Fetching git repository''
                          (if URL gconf = [] then ExpectedNonEmptyURL else UserPassOnlyHTTPS)))
       \<and> (\<exists>lock e. fst (hg_Sync ext hconf dst w) = (lock, Some e)
            \<and> cmds (snd (hg_Sync ext hconf dst w)) = cmds w
            \<and> ((\<forall>pre w0 m. newTempDir ext pre w0 \<noteq> Inl m)
                \<longrightarrow> e = Wrapped ''Setting up hg''
                          (if URL hconf = [] then ExpectedNonEmptyURL else UserPassOnlyHTTPS)))"
  using git_Sync_userpass [OF assms(1-4), of cp dst w] hg_Sync_userpass [OF assms(5-8), of dst w]
  by blast

theorem userpass_requires_https_witness:
  "snd (fst (git_Sync userPass sshGitConf noPaths ''/dst'' startWorld))
     = Some (Wrapped ''Fetching git repository'' UserPassOnlyHTTPS)
   \<and> cmds (snd (git_Sync userPass sshGitConf noPaths ''/dst'' startWorld)) = []
   \<and> snd (fst (hg_Sync userPass sshHgConf ''/dst'' startWorld))
     = Some (Wrapped ''Setting up hg'' UserPassOnlyHTTPS)
   \<and> cmds (snd (hg_Sync userPass sshHgConf ''/dst'' startWorld)) = []"
proof -
  let ?a = "\<lparr>PrivateKey = None, KnownHosts = None, Username = Some ''alice'',
             Password = Some ''s3cret''\<rparr>"
  have g: "git_getAuthOpts userPass sshGitConf = Inr ?a"
    by (simp add: git_getAuthOpts_def userPass_def sshGitConf_def gitConf_def noAuthOpts_def
        okOutside_def SecretK8sCoreV1SSHAuthPrivateKey_def SecretSSHAuthKnownHosts_def
        SecretK8sCorev1BasicAuthUsernameKey_def SecretK8sCorev1BasicAuthPasswordKey_def)
  have h: "hg_getAuthOpts userPass sshHgConf = Inr ?a"
    by (simp add: hg_getAuthOpts_def userPass_def sshHgConf_def hgConf_def noAuthOpts_def
        okOutside_def SecretK8sCoreV1SSHAuthPrivateKey_def SecretSSHAuthKnownHosts_def
        SecretK8sCorev1BasicAuthUsernameKey_def SecretK8sCorev1BasicAuthPasswordKey_def)
  have u: "Username ?a \<noteq> None" "Password ?a \<noteq> None" by simp_all
  have pg: "\<not> HasPrefix (URL sshGitConf) ''https://''"
    by (simp add: HasPrefix_def sshGitConf_def)
  have ph: "\<not> HasPrefix (URL sshHgConf) ''https://''"
    by (simp add: HasPrefix_def sshHgConf_def)
  have io: "\<forall>pre w0 m. newTempDir userPass pre w0 \<noteq> Inl m"
    "\<forall>d n w0. writeFile_err userPass d n w0 = None"
    by (simp_all add: userPass_def okOutside_def)
  have ne: "URL sshGitConf \<noteq> []" "URL sshHgConf \<noteq> []"
    by (simp_all add: sshGitConf_def sshHgConf_def)
  have s: "cmds startWorld = []" by (simp add: startWorld_def)
  from userpass_requires_https [OF g u pg h u ph, of noPaths "''/dst''" startWorld] io ne s
  show ?thesis by auto
qed

section \<open>The auth directory\<close>

lemma git_stagePrivateKey_newline:
  assumes "PrivateKey a = Some key" and "git_stagePrivateKey ext a d w = (Inr c, w')"
  shows "\<exists>t perm. dirs w' d = Some t \<and> map_of t ''private-key'' = Some (key @ ''\<newline>'', perm)
           \<and> ((\<exists>t0. dirs w d = Some t0 \<and> map_of t0 ''private-key'' = None) \<longrightarrow> perm = perm0600)"
  using assms
  by (auto simp: git_stagePrivateKey_def WriteFile_def Let_def update_conv'
      split: option.splits prod.splits)

lemma hg_stagePrivateKey_as_is:
  assumes "PrivateKey a = Some key" and "hg_stagePrivateKey ext a d w = (Inr c, w')"
  shows "\<exists>t perm. dirs w' d = Some t \<and> map_of t ''private-key'' = Some (key, perm)
           \<and> ((\<exists>t0. dirs w d = Some t0 \<and> map_of t0 ''private-key'' = None) \<longrightarrow> perm = perm0600)"
  using assms
  by (auto simp: hg_stagePrivateKey_def WriteFile_def Let_def update_conv'
      split: option.splits prod.splits)

lemma git_private_key_with_newline:
  "map_option (\<lambda>t. map_of t ''private-key'')
     (dirs (snd (git_stagePrivateKey keySecret
                   \<lparr>PrivateKey = Some ''KEY'', KnownHosts = None, Username = None, Password = None\<rparr>
                   ''/tmp/git-auth'' (snd (NewTempDir keySecret ''git-auth'' startWorld))))
        ''/tmp/git-auth'')
       = Some (Some (''KEY\<newline>'', perm0600))"
  by (simp add: prims git_defs keySecret_def okOutside_def Let_def startWorld_def)

text \<open>
  C4. The claim says that both backends write the private key with a newline at its end.
  The git backend appends one. The hg backend writes the key as it is in the secret: for
  the key "KEY", the file \<^verbatim>\<open>private-key\<close> in the auth directory holds "KEY", with
  permissions 0600, after \<open>newHg\<close> has returned without error.
\<close>

theorem hg_private_key_written_as_is:
  "fst (newHg keySecret sshHgConf startWorld) = Inr
     \<lparr>opts = sshHgConf, authDir = ''/tmp/hg-auth'',
      env = Some [''HGRCPATH=/tmp/hg-auth/hgrc''],
      cacheID = EncodeToString (Sum256 (URL sshHgConf))\<rparr>
   \<and> map_option (\<lambda>t. map_of t ''private-key'')
         (dirs (snd (newHg keySecret sshHgConf startWorld)) ''/tmp/hg-auth'')
       = Some (Some (''KEY'', perm0600))"
  by (simp add: prims hg_defs keySecret_def okOutside_def Let_def sshHgConf_def hgConf_def
      startWorld_def secret_names)

lemma git_fetch_removes_authDir:
  assumes "git_getAuthOpts ext conf = Inr a"
      and "NewTempDir ext ''git-auth'' w = (Inr ad, w1)"
      and "\<forall>w0. removeAll_err ext ad w0 = None"
  shows "dirs (snd (git_fetch ext conf cp d b w)) ad = None"
  using assms by (simp add: git_fetch_def RemoveAll_def split: prod.splits)

text \<open>
  C5. The claim says that both backends remove the auth directory on every exit path. The
  git backend defers the removal right after the directory is made. In the hg backend
  \<open>Close\<close> removes it, and \<open>Sync\<close> defers \<open>Close\<close> only after \<open>newHg\<close> has returned without
  error: when \<open>setup\<close> fails after it made the directory (here on a username and password
  for a remote that is not https), \<open>Sync\<close> returns the error, the staging directory is
  removed and the auth directory is still there.
\<close>

theorem hg_auth_dir_left_behind:
  "snd (fst (hg_Sync userPass sshHgConf ''/dst'' startWorld))
     = Some (Wrapped ''Setting up hg'' UserPassOnlyHTTPS)
   \<and> dirs (snd (hg_Sync userPass sshHgConf ''/dst'' startWorld)) ''/tmp/hg-auth'' = Some []
   \<and> dirs (snd (hg_Sync userPass sshHgConf ''/dst'' startWorld)) ''/tmp/hg'' = None
   \<and> snd (fst (git_Sync userPass sshGitConf noPaths ''/dst'' startWorld))
     = Some (Wrapped ''Fetching git repository'' UserPassOnlyHTTPS)
   \<and> dirs (snd (git_Sync userPass sshGitConf noPaths ''/dst'' startWorld)) ''/tmp/git-auth'' = None"
  by (simp add: prims hg_defs git_defs userPass_def okOutside_def Let_def sshHgConf_def hgConf_def
      sshGitConf_def gitConf_def startWorld_def secret_names)

section \<open>The hg backend with a populated cache\<close>

lemma sameLogs_refl [simp]: "sameLogs w w"
  by (simp add: sameLogs_def)

lemma sameLogs_trans: "sameLogs w w1 \<Longrightarrow> sameLogs w1 w2 \<Longrightarrow> sameLogs w w2"
  by (simp add: sameLogs_def)

lemma NewTempDir_logs: "NewTempDir ext pre w = (r, w') \<Longrightarrow> sameLogs w w'"
  by (auto simp: NewTempDir_def sameLogs_def split: sum.splits)

lemma WriteFile_logs: "WriteFile ext d n data perm w = (r, w') \<Longrightarrow> sameLogs w w'"
  by (auto simp: WriteFile_def sameLogs_def Let_def split: option.splits)

lemma RemoveAll_logs: "sameLogs w (snd (RemoveAll ext p w))"
  by (auto simp: RemoveAll_def sameLogs_def split: option.splits)

lemma Rename_logs: "sameLogs w (snd (Rename ext old new w))"
  by (auto simp: Rename_def sameLogs_def split: option.splits list.splits)

lemma replaceDir_logs: "sameLogs w (snd (replaceDir ext p dst w))"
  using RemoveAll_logs [of w ext dst] Rename_logs [of "snd (RemoveAll ext dst w)" ext p dst]
  by (auto simp: replaceDir_def sameLogs_def split: prod.splits option.splits)

lemma Close_logs: "sameLogs w (snd (Close ext t w))"
  by (simp add: Close_def RemoveAll_logs)

lemma hg_runDeferred_logs: "sameLogs w (hg_runDeferred ext ds w)"
proof (induction ext ds w rule: hg_runDeferred.induct)
  case (1 ext w)
  then show ?case by simp
next
  case (2 ext p ds w)
  then show ?case using RemoveAll_logs sameLogs_trans by fastforce
next
  case (3 ext t ds w)
  then show ?case using Close_logs sameLogs_trans by fastforce
qed

lemma Run_logs:
  "Run ext prog as vars d w = (r, w') \<Longrightarrow>
     cmds w' = cmds w @ [Command prog as vars d] \<and> cacheOps w' = cacheOps w"
  by (auto simp: Run_def Let_def split: sum.splits)

lemma hg_stagePrivateKey_logs: "hg_stagePrivateKey ext a d w = (r, w') \<Longrightarrow> sameLogs w w'"
  by (auto simp: hg_stagePrivateKey_def split: option.splits prod.splits dest: WriteFile_logs)

lemma stageKnownHosts_logs: "stageKnownHosts ext a d c w = (r, w') \<Longrightarrow> sameLogs w w'"
  by (auto simp: stageKnownHosts_def split: option.splits prod.splits dest: WriteFile_logs)

lemma hg_stageSSH_logs: "hg_stageSSH ext a d rc w = (r, w') \<Longrightarrow> sameLogs w w'"
  unfolding hg_stageSSH_def
  by (auto split: if_splits sum.splits prod.splits
      dest!: hg_stagePrivateKey_logs stageKnownHosts_logs intro: sameLogs_trans)

lemma hg_writeRc_logs: "hg_writeRc ext t rc w = (r, w') \<Longrightarrow> sameLogs w w'"
  by (auto simp: hg_writeRc_def split: if_splits option.splits prod.splits dest: WriteFile_logs)

lemma hg_setup_logs: "hg_setup ext t w = (r, w') \<Longrightarrow> sameLogs w w'"
  unfolding hg_setup_def Let_def
  by (auto split: if_splits sum.splits prod.splits option.splits
      dest!: NewTempDir_logs hg_stageSSH_logs hg_writeRc_logs intro: sameLogs_trans)

lemma newHg_logs: "newHg ext conf w = (r, w') \<Longrightarrow> sameLogs w w'"
  unfolding newHg_def
  by (auto split: prod.splits option.splits dest!: hg_setup_logs)

lemma cache_Has_logs:
  "cache_Has ext ty i w = (r, w') \<Longrightarrow> cmds w' = cmds w \<and> cacheOps w' = cacheOps w @ [Has ty i]"
  by (auto simp: cache_Has_def)

lemma cache_CopyFrom_logs:
  "cache_CopyFrom ext ty i d w = (r, w') \<Longrightarrow>
     cmds w' = cmds w \<and> cacheOps w' = cacheOps w @ [CopyFrom ty i d]"
  by (auto simp: cache_CopyFrom_def Let_def)

lemma cache_Save_logs:
  "cache_Save ext ty i d w = (r, w') \<Longrightarrow>
     cmds w' = cmds w \<and> cacheOps w' = cacheOps w @ [Save ty i d]"
  by (auto simp: cache_Save_def)

lemma cloneHasTargetRef_logs:
  "cloneHasTargetRef ext t d w = (b, w') \<Longrightarrow>
     cmds w' = cmds w @ [Command ''hg'' [''id'', ''--id'', ''-r'', Ref (opts t)] (env t) d]
   \<and> cacheOps w' = cacheOps w
   \<and> b = (\<exists>out err. fst (Run ext ''hg'' [''id'', ''--id'', ''-r'', Ref (opts t)] (env t) d w)
                        = Inr (out, err) \<and> HasPrefix (Ref (opts t)) (TrimSpace out))"
  unfolding cloneHasTargetRef_def hg_run_def
  by (auto split: prod.splits sum.splits if_splits dest: Run_logs)

lemma syncClone_logs:
  "syncClone ext t d w = (r, w') \<Longrightarrow>
     cmds w' = cmds w @ [Command ''hg'' [''pull''] (env t) d] \<and> cacheOps w' = cacheOps w"
  unfolding syncClone_def hg_run_def
  by (auto split: prod.splits sum.splits dest: Run_logs)

lemma checkout_logs:
  "checkout ext t d w = (r, w') \<Longrightarrow>
     cacheOps w' = cacheOps w
   \<and> (\<exists>cs. cmds w' = cmds w @ cs
          \<and> (\<forall>c \<in> set cs. cmd_args c \<noteq> [''pull''] \<and> cmd_args c \<noteq> [''init'']))"
  unfolding checkout_def hg_run_def Let_def
  by (auto split: prod.splits sum.splits dest!: Run_logs)

text \<open>With a cache entry, a successful copy and the answer of the identifier check, the
  rest of the block is determined.\<close>

lemma hg_fromCache_logs:
  assumes "cache_CopyFrom ext ''hg'' (getCacheID t) p w = (None, w1)"
      and "cloneHasTargetRef ext t cachePath w1 = (hasRef, w2)"
      and "hg_fromCache ext t cachePath p w = (r, w')"
  shows "\<exists>cs ops. cmds w' = cmds w2 @ cs \<and> cacheOps w' = cacheOps w2 @ ops
      \<and> cs = (if hasRef then [] else [Command ''hg'' [''pull''] (env t) p])
      \<and> (hasRef \<longrightarrow> ops = [] \<and> r = None)
      \<and> (\<not> hasRef \<longrightarrow>
            (\<forall>w3. syncClone ext t p w2 = (None, w3) \<longrightarrow> ops = [Save ''hg'' (getCacheID t) p])
          \<and> (\<forall>e w3. syncClone ext t p w2 = (Some e, w3) \<longrightarrow> ops = [] \<and> r \<noteq> None))"
  using assms unfolding hg_fromCache_def
  by (auto split: prod.splits option.splits dest!: syncClone_logs cache_Save_logs)

lemma hg_stage_from_cache:
  assumes n: "NewTempDir ext ''hg'' w = (Inr p, w1)"
      and h: "newHg ext conf w1 = (Inr t, w2)"
      and c: "cache_Has ext ''hg'' (getCacheID t) w2 = (Some cachePath, w3)"
      and f: "cache_CopyFrom ext ''hg'' (getCacheID t) p w3 = (None, w4)"
      and r: "cloneHasTargetRef ext t cachePath w4 = (hasRef, w5)"
      and s: "hg_stage ext conf w = (res, w')"
  shows "\<exists>cs ops.
           cmds w' = cmds w @ [Command ''hg'' [''id'', ''--id'', ''-r'', Ref conf] (env t) cachePath]
                       @ (if hasRef then [] else [Command ''hg'' [''pull''] (env t) p]) @ cs
         \<and> (\<forall>c \<in> set cs. cmd_args c \<noteq> [''pull''] \<and> cmd_args c \<noteq> [''init''])
         \<and> cacheOps w' = cacheOps w @ [Has ''hg'' (getCacheID t), CopyFrom ''hg'' (getCacheID t) p]
                            @ ops
         \<and> (hasRef \<longrightarrow> ops = [])
         \<and> (\<not> hasRef \<longrightarrow>
               (\<forall>w6. syncClone ext t p w5 = (None, w6) \<longrightarrow> ops = [Save ''hg'' (getCacheID t) p])
             \<and> (\<forall>e w6. syncClone ext t p w5 = (Some e, w6) \<longrightarrow> ops = []))"
proof -
  have o: "opts t = conf" using newHg_cacheID [OF h] by simp
  obtain r5 w6 where fc: "hg_fromCache ext t cachePath p w3 = (r5, w6)"
    by (cases "hg_fromCache ext t cachePath p w3")
  have pop: "hg_populate ext t p w2 = (r5, w6)"
    using c fc by (simp add: hg_populate_def)
  note l1 = NewTempDir_logs [OF n] and l2 = newHg_logs [OF h] and l3 = cache_Has_logs [OF c]
    and l4 = cache_CopyFrom_logs [OF f] and l5 = cloneHasTargetRef_logs [OF r]
    and l6 = hg_fromCache_logs [OF f r fc]
  have base: "cmds w5 = cmds w @ [Command ''hg'' [''id'', ''--id'', ''-r'', Ref conf] (env t) cachePath]"
    "cacheOps w5 = cacheOps w @ [Has ''hg'' (getCacheID t), CopyFrom ''hg'' (getCacheID t) p]"
    using l1 l2 l3 l4 l5 o by (simp_all add: sameLogs_def)
  show ?thesis
  proof (cases r5)
    case (Some e)
    with s n h pop have "w' = w6" by (simp add: hg_stage_def Let_def)
    with l6 base show ?thesis by auto
  next
    case None
    obtain r7 w7 where co: "checkout ext t p w6 = (r7, w7)"
      by (cases "checkout ext t p w6")
    with s n h pop None have "w' = w7"
      by (cases r7) (simp_all add: hg_stage_def Let_def)
    with l6 base checkout_logs [OF co] show ?thesis by auto
  qed
qed

text \<open>
  C3. The hg backend with a cache entry for the id of the source, where copying the entry
  into the staging directory succeeds: the identifier check (\<^verbatim>\<open>id --id -r\<close> with the ref, in
  the cached directory) succeeds exactly when the command succeeds and the ref starts with
  its trimmed output. The sync then runs no \<^verbatim>\<open>pull\<close> when the check succeeds and exactly one
  \<^verbatim>\<open>pull\<close>, in the staging directory, when it does not; it never runs \<^verbatim>\<open>init\<close>. The calls to
  the cache are the probe, the copy and, after a successful pull, one save of the staging
  directory under the same type and id.
\<close>

theorem hg_sync_from_cache:
  assumes "NewTempDir ext ''hg'' w = (Inr p, w1)"
      and "newHg ext conf w1 = (Inr t, w2)"
      and "cache_Has ext ''hg'' (getCacheID t) w2 = (Some cachePath, w3)"
      and "cache_CopyFrom ext ''hg'' (getCacheID t) p w3 = (None, w4)"
      and "cloneHasTargetRef ext t cachePath w4 = (hasRef, w5)"
  shows "hasRef = (\<exists>out err.
            fst (Run ext ''hg'' [''id'', ''--id'', ''-r'', Ref conf] (env t) cachePath w4)
              = Inr (out, err) \<and> HasPrefix (Ref conf) (TrimSpace out))
       \<and> (\<exists>cs ops.
             cmds (snd (hg_Sync ext conf dst w)) = cmds w @ cs
           \<and> cacheOps (snd (hg_Sync ext conf dst w))
               = cacheOps w @ [Has ''hg'' (getCacheID t), CopyFrom ''hg'' (getCacheID t) p] @ ops
           \<and> (\<forall>c \<in> set cs. cmd_args c \<noteq> [''init''])
           \<and> filter (\<lambda>c. cmd_args c = [''pull'']) cs
               = (if hasRef then [] else [Command ''hg'' [''pull''] (env t) p])
           \<and> (hasRef \<longrightarrow> ops = [])
           \<and> (\<not> hasRef \<longrightarrow>
                 (\<forall>w6. syncClone ext t p w5 = (None, w6) \<longrightarrow> ops = [Save ''hg'' (getCacheID t) p])
               \<and> (\<forall>e w6. syncClone ext t p w5 = (Some e, w6) \<longrightarrow> ops = [])))"
proof -
  have o: "opts t = conf" using newHg_cacheID [OF assms(2)] by simp
  obtain res w' where s: "hg_stage ext conf w = (res, w')"
    by (cases "hg_stage ext conf w")
  let ?W = "snd (hg_Sync ext conf dst w)"
  have "sameLogs w' ?W"
  proof -
    obtain lock r ds where res: "res = ((lock, r), ds)" by (metis surj_pair)
    show ?thesis
    proof (cases r)
      case (Inl e)
      with s res show ?thesis by (simp add: hg_Sync_def hg_runDeferred_logs)
    next
      case (Inr q)
      with s res show ?thesis
        using replaceDir_logs [of w' ext q dst]
          hg_runDeferred_logs [of "snd (replaceDir ext q dst w')" ext ds]
        by (auto simp: hg_Sync_def sameLogs_def split: prod.splits)
    qed
  qed
  then have e: "cmds ?W = cmds w'" "cacheOps ?W = cacheOps w'"
    by (simp_all add: sameLogs_def)
  obtain cs ops where st:
    "cmds w' = cmds w @ [Command ''hg'' [''id'', ''--id'', ''-r'', Ref conf] (env t) cachePath]
                       @ (if hasRef then [] else [Command ''hg'' [''pull''] (env t) p]) @ cs"
    "\<forall>c \<in> set cs. cmd_args c \<noteq> [''pull''] \<and> cmd_args c \<noteq> [''init'']"
    "cacheOps w' = cacheOps w @ [Has ''hg'' (getCacheID t), CopyFrom ''hg'' (getCacheID t) p] @ ops"
    "hasRef \<longrightarrow> ops = []"
    "\<not> hasRef \<longrightarrow>
       (\<forall>w6. syncClone ext t p w5 = (None, w6) \<longrightarrow> ops = [Save ''hg'' (getCacheID t) p])
     \<and> (\<forall>e w6. syncClone ext t p w5 = (Some e, w6) \<longrightarrow> ops = [])"
    using hg_stage_from_cache [OF assms s] by blast
  let ?cs = "[Command ''hg'' [''id'', ''--id'', ''-r'', Ref conf] (env t) cachePath]
               @ (if hasRef then [] else [Command ''hg'' [''pull''] (env t) p]) @ cs"
  have f: "filter (\<lambda>c. cmd_args c = [''pull'']) cs = []"
    using st(2) by (simp add: filter_empty_conv)
  have "cmds ?W = cmds w @ ?cs" using e st(1) by simp
  moreover have "\<forall>c \<in> set ?cs. cmd_args c \<noteq> [''init'']" using st(2) by auto
  moreover have "filter (\<lambda>c. cmd_args c = [''pull'']) ?cs
                   = (if hasRef then [] else [Command ''hg'' [''pull''] (env t) p])"
    using f by simp
  moreover have "cacheOps ?W
      = cacheOps w @ [Has ''hg'' (getCacheID t), CopyFrom ''hg'' (getCacheID t) p] @ ops"
    using e st(3) by simp
  ultimately have "\<exists>cs ops.
             cmds ?W = cmds w @ cs
           \<and> cacheOps ?W
               = cacheOps w @ [Has ''hg'' (getCacheID t), CopyFrom ''hg'' (getCacheID t) p] @ ops
           \<and> (\<forall>c \<in> set cs. cmd_args c \<noteq> [''init''])
           \<and> filter (\<lambda>c. cmd_args c = [''pull'']) cs
               = (if hasRef then [] else [Command ''hg'' [''pull''] (env t) p])
           \<and> (hasRef \<longrightarrow> ops = [])
           \<and> (\<not> hasRef \<longrightarrow>
                 (\<forall>w6. syncClone ext t p w5 = (None, w6) \<longrightarrow> ops = [Save ''hg'' (getCacheID t) p])
               \<and> (\<forall>e w6. syncClone ext t p w5 = (Some e, w6) \<longrightarrow> ops = []))"
    using st(4,5) by blast
  moreover have "hasRef = (\<exists>out err.
            fst (Run ext ''hg'' [''id'', ''--id'', ''-r'', Ref conf] (env t) cachePath w4)
              = Inr (out, err) \<and> HasPrefix (Ref conf) (TrimSpace out))"
    using cloneHasTargetRef_logs [OF assms(5)] o by simp
  ultimately show ?thesis by blast
qed

theorem hg_sync_from_cache_witness:
  "filter (\<lambda>c. cmd_args c = [''pull'']) (cmds (snd (hg_Sync staleCache hgConf ''/dst'' startWorld)))
     = [Command ''hg'' [''pull''] (Some []) ''/tmp/hg'']
   \<and> cacheOps (snd (hg_Sync staleCache hgConf ''/dst'' startWorld))
     = [Has ''hg'' (EncodeToString (Sum256 (URL hgConf))),
        CopyFrom ''hg'' (EncodeToString (Sum256 (URL hgConf))) ''/tmp/hg'',
        Save ''hg'' (EncodeToString (Sum256 (URL hgConf))) ''/tmp/hg'']
   \<and> filter (\<lambda>c. cmd_args c = [''pull'']) (cmds (snd (hg_Sync freshCache hgConf ''/dst'' startWorld)))
     = []"
proof -
  let ?t = "\<lparr>opts = hgConf, authDir = ''/tmp/hg-auth'', env = Some [],
             cacheID = EncodeToString (Sum256 (URL hgConf))\<rparr>"
  have id: "getCacheID ?t = EncodeToString (Sum256 (URL hgConf))"
    by (simp add: getCacheID_def)
  have s0: "cmds startWorld = []" "cacheOps startWorld = []"
    by (simp_all add: startWorld_def)
  have stale: "filter (\<lambda>c. cmd_args c = [''pull''])
                 (cmds (snd (hg_Sync staleCache hgConf ''/dst'' startWorld)))
                 = [Command ''hg'' [''pull''] (Some []) ''/tmp/hg'']
     \<and> cacheOps (snd (hg_Sync staleCache hgConf ''/dst'' startWorld))
         = [Has ''hg'' (EncodeToString (Sum256 (URL hgConf))),
            CopyFrom ''hg'' (EncodeToString (Sum256 (URL hgConf))) ''/tmp/hg'',
            Save ''hg'' (EncodeToString (Sum256 (URL hgConf))) ''/tmp/hg'']"
  proof -
    obtain w1 where n: "NewTempDir staleCache ''hg'' startWorld = (Inr ''/tmp/hg'', w1)"
      by (simp add: NewTempDir_def staleCache_def okOutside_def)
    have "fst (newHg staleCache hgConf w1) = Inr ?t"
      by (simp add: prims hg_defs staleCache_def okOutside_def Let_def hgConf_def)
    then obtain w2 where h: "newHg staleCache hgConf w1 = (Inr ?t, w2)"
      by (cases "newHg staleCache hgConf w1") simp
    obtain w3 where c: "cache_Has staleCache ''hg'' (getCacheID ?t) w2 = (Some ''/cache/hg'', w3)"
      by (simp add: cache_Has_def staleCache_def okOutside_def)
    obtain w4 where f: "cache_CopyFrom staleCache ''hg'' (getCacheID ?t) ''/tmp/hg'' w3 = (None, w4)"
      by (simp add: cache_CopyFrom_def staleCache_def okOutside_def Let_def)
    have "fst (cloneHasTargetRef staleCache ?t ''/cache/hg'' w4) = False"
      by (simp add: cloneHasTargetRef_def hg_run_def Run_def staleCache_def okOutside_def Let_def
          hgConf_def TrimSpace_def isSpace_def HasPrefix_def)
    then obtain w5 where r: "cloneHasTargetRef staleCache ?t ''/cache/hg'' w4 = (False, w5)"
      by (cases "cloneHasTargetRef staleCache ?t ''/cache/hg'' w4") simp
    have "fst (syncClone staleCache ?t ''/tmp/hg'' w5) = None"
      by (simp add: syncClone_def hg_run_def Run_def staleCache_def okOutside_def Let_def)
    then obtain w6 where p: "syncClone staleCache ?t ''/tmp/hg'' w5 = (None, w6)"
      by (cases "syncClone staleCache ?t ''/tmp/hg'' w5") simp
    from hg_sync_from_cache [OF n h c f r, of "''/dst''"] p s0 id show ?thesis
      by auto
  qed
  have fresh: "filter (\<lambda>c. cmd_args c = [''pull''])
                 (cmds (snd (hg_Sync freshCache hgConf ''/dst'' startWorld))) = []"
  proof -
    obtain w1 where n: "NewTempDir freshCache ''hg'' startWorld = (Inr ''/tmp/hg'', w1)"
      by (simp add: NewTempDir_def freshCache_def okOutside_def)
    have "fst (newHg freshCache hgConf w1) = Inr ?t"
      by (simp add: prims hg_defs freshCache_def okOutside_def Let_def hgConf_def)
    then obtain w2 where h: "newHg freshCache hgConf w1 = (Inr ?t, w2)"
      by (cases "newHg freshCache hgConf w1") simp
    obtain w3 where c: "cache_Has freshCache ''hg'' (getCacheID ?t) w2 = (Some ''/cache/hg'', w3)"
      by (simp add: cache_Has_def freshCache_def okOutside_def)
    obtain w4 where f: "cache_CopyFrom freshCache ''hg'' (getCacheID ?t) ''/tmp/hg'' w3 = (None, w4)"
      by (simp add: cache_CopyFrom_def freshCache_def okOutside_def Let_def)
    have "fst (cloneHasTargetRef freshCache ?t ''/cache/hg'' w4) = True"
      by (simp add: cloneHasTargetRef_def hg_run_def Run_def freshCache_def okOutside_def Let_def
          hgConf_def TrimSpace_def isSpace_def HasPrefix_def)
    then obtain w5 where r: "cloneHasTargetRef freshCache ?t ''/cache/hg'' w4 = (True, w5)"
      by (cases "cloneHasTargetRef freshCache ?t ''/cache/hg'' w4") simp
    from hg_sync_from_cache [OF n h c f r, of "''/dst''"] s0 show ?thesis
      by auto
  qed
  from stale fresh show ?thesis by simp
qed

section \<open>Replacing the destination\<close>




















































lemma sync_replaces_destination:
  "dirs (snd (git_Sync okOutside gitConf noPaths ''/dst'' startWorld)) ''/dst'' = Some newTree
   \<and> dirs (snd (hg_Sync okOutside hgConf ''/dst'' startWorld)) ''/dst'' = Some newTree"
  by (simp add: prims git_defs hg_defs okOutside_def gitConf_def hgConf_def
      noPaths_def startWorld_def Let_def TrimSpace_def isSpace_def Split_def nl_def
      singleLineCommitTitle_def singleLineChangeSetTitle_def SplitN2_def)

end
